theory Spec2Isabelle
  imports Complex_Main "HOL-Library.Sublist"
begin

section \<open>Python values and exceptions\<close>

text \<open>
  The service keeps its reference data as whatever \<^verbatim>\<open>json.load\<close> returned and reads the
  completion service's reply through \<^verbatim>\<open>response.json()\<close>, so the values the handlers touch
  are JSON-shaped Python values. A \<^verbatim>\<open>dict\<close> is an association list (JSON objects have
  \<^verbatim>\<open>str\<close> keys only; the first binding of a key is the one a lookup sees). A \<^verbatim>\<open>str\<close> is
  kept as its UTF-8 bytes; \<open>code_points\<close> recovers the characters Python iterates over.
  A \<^verbatim>\<open>float\<close> is the real number its literal denotes.
\<close>

datatype pyval =
    PNone
  | PBool bool
  | PInt int
  | PFloat real
  | PStr string
  | PList "pyval list"
  | PDict "(string \<times> pyval) list"

text \<open>The operation a \<^verbatim>\<open>TypeError\<close> was raised by: \<^verbatim>\<open>obj[key]\<close>, \<^verbatim>\<open>obj[:n]\<close>, \<^verbatim>\<open>iter(obj)\<close>.\<close>

datatype py_op = Getitem pyval | Getslice nat | Iter

datatype exn =
    HTTPException int string
  | KeyError pyval
  | IndexError pyval
  | TypeError pyval py_op
  | RequestException string
  | JSONDecodeError string
  | FileNotFoundError string
  | UnicodeEncodeError string

text \<open>
  An exception carries what its description depends on: the key of a \<^verbatim>\<open>KeyError\<close>, the
  sequence an \<^verbatim>\<open>IndexError\<close> was raised on, the object and the operation of a
  \<^verbatim>\<open>TypeError\<close>, the line a \<^verbatim>\<open>UnicodeEncodeError\<close> was raised for, the message of the others.

  What the interpreter, its libraries and the process environment contribute and the
  repository does not define: \<^verbatim>\<open>str(e)\<close> of an exception, \<^verbatim>\<open>str(v)\<close> of a value that is not a
  \<^verbatim>\<open>str\<close> (used when an f-string interpolates it), the JSON codec, and standard output.
  \<open>print_error line\<close> is the exception \<^verbatim>\<open>print(line)\<close> raises, \<open>None\<close> when the line is
  written: a stream that cannot encode a character of the line raises
  \<^verbatim>\<open>UnicodeEncodeError\<close>. What is written is not kept.
\<close>

record py_runtime =
  str_exn :: "exn \<Rightarrow> string"
  str_val :: "pyval \<Rightarrow> string"
  json_loads :: "string \<Rightarrow> exn + pyval"
  json_dumps :: "pyval \<Rightarrow> string"
  print_error :: "string \<Rightarrow> exn option"

text \<open>Truth value of an object, as \<^verbatim>\<open>if not x\<close> tests it.\<close>

fun truthy :: "pyval \<Rightarrow> bool" where
  "truthy PNone = False"
| "truthy (PBool b) = b"
| "truthy (PInt i) = (i \<noteq> 0)"
| "truthy (PFloat r) = (r \<noteq> 0)"
| "truthy (PStr s) = (s \<noteq> [])"
| "truthy (PList xs) = (xs \<noteq> [])"
| "truthy (PDict kvs) = (kvs \<noteq> [])"

text \<open>A UTF-8 continuation byte is \<^verbatim>\<open>10xxxxxx\<close>; every other byte starts a code point.\<close>

definition is_cont :: "char \<Rightarrow> bool" where
  "is_cont c = (128 \<le> (of_char c :: nat) \<and> (of_char c :: nat) < 192)"

function code_points :: "string \<Rightarrow> string list" where
  "code_points [] = []"
| "code_points (c # cs) = (c # takeWhile is_cont cs) # code_points (dropWhile is_cont cs)"
  by pat_completeness auto
termination
  by (relation "measure length") (auto simp: length_dropWhile_le less_Suc_eq_le)

text \<open>\<^verbatim>\<open>obj[key]\<close> with a \<^verbatim>\<open>str\<close> key.\<close>

fun getitem_str :: "pyval \<Rightarrow> string \<Rightarrow> exn + pyval" where
  "getitem_str (PDict kvs) k =
     (case map_of kvs k of None \<Rightarrow> Inl (KeyError (PStr k)) | Some v \<Rightarrow> Inr v)"
| "getitem_str v k = Inl (TypeError v (Getitem (PStr k)))"

text \<open>
  \<^verbatim>\<open>obj[0]\<close>. A dict built from JSON has no key \<^verbatim>\<open>0\<close>; the first item of a \<^verbatim>\<open>str\<close> is its
  first character.
\<close>

fun getitem_0 :: "pyval \<Rightarrow> exn + pyval" where
  "getitem_0 (PList xs) = (case xs of [] \<Rightarrow> Inl (IndexError (PList xs)) | x # _ \<Rightarrow> Inr x)"
| "getitem_0 (PStr s) =
     (case code_points s of [] \<Rightarrow> Inl (IndexError (PStr s)) | c # _ \<Rightarrow> Inr (PStr c))"
| "getitem_0 (PDict kvs) = Inl (KeyError (PInt 0))"
| "getitem_0 v = Inl (TypeError v (Getitem (PInt 0)))"

text \<open>
  \<^verbatim>\<open>obj[:n]\<close> for \<open>n \<ge> 0\<close>. Only sequences can be sliced; a dict raises (a \<^verbatim>\<open>TypeError\<close>
  for the unhashable slice up to Python 3.11, a \<^verbatim>\<open>KeyError\<close> after; the model keeps the
  former, both are caught alike).
\<close>

definition str_slice_to :: "string \<Rightarrow> nat \<Rightarrow> string" where
  "str_slice_to s n = concat (take n (code_points s))"

fun getslice_to :: "pyval \<Rightarrow> nat \<Rightarrow> exn + pyval" where
  "getslice_to (PStr s) n = Inr (PStr (str_slice_to s n))"
| "getslice_to (PList xs) n = Inr (PList (take n xs))"
| "getslice_to v n = Inl (TypeError v (Getslice n))"

text \<open>The items a \<^verbatim>\<open>for\<close> loop or a generator expression draws from an object.\<close>

fun py_iter :: "pyval \<Rightarrow> exn + pyval list" where
  "py_iter (PList xs) = Inr xs"
| "py_iter (PDict kvs) = Inr (map (PStr \<circ> fst) kvs)"
| "py_iter (PStr s) = Inr (map PStr (code_points s))"
| "py_iter v = Inl (TypeError v Iter)"

text \<open>An f-string replacement field \<^verbatim>\<open>{v}\<close>: a \<^verbatim>\<open>str\<close> goes in as it is, anything else through \<^verbatim>\<open>str\<close>.\<close>

fun fmt :: "py_runtime \<Rightarrow> pyval \<Rightarrow> string" where
  "fmt rt (PStr s) = s"
| "fmt rt v = str_val rt v"

text \<open>\<^verbatim>\<open>str\<close> of an \<^verbatim>\<open>int\<close>: decimal digits, a minus sign when negative.\<close>

fun digits :: "nat \<Rightarrow> string" where
  "digits n =
     (if n < 10 then [''0123456789'' ! n]
      else digits (n div 10) @ [''0123456789'' ! (n mod 10)])"

definition str_int :: "int \<Rightarrow> string" where
  "str_int i = (if i < 0 then ''-'' @ digits (nat (- i)) else digits (nat i))"

section \<open>The generation client\<close>

text \<open>
  \<^verbatim>\<open>requests.post(url, headers=..., json=data)\<close> is the only outbound effect. The world is
  the sequence of requests posted so far; the completion service is a function of that
  sequence (the request being answered is its last element) and either fails at transport
  level or yields a response. \<open>response_text\<close> is the body as received (\<^verbatim>\<open>response.text\<close>),
  \<open>json_body\<close> what \<^verbatim>\<open>response.json()\<close> does on it.
\<close>

record post =
  url :: string
  headers :: "(string \<times> string) list"
  json :: "(string \<times> pyval) list"

record response =
  status_code :: int
  response_text :: string
  json_body :: "exn + pyval"

type_synonym world = "post list"

type_synonym endpoint = "post list \<Rightarrow> exn + response"

record TogetherAIClient =
  api_key :: string
  model :: string

definition base_url :: "TogetherAIClient \<Rightarrow> string" where
  "base_url self = ''https://api.together.xyz/v1/completions''"

definition client_headers :: "TogetherAIClient \<Rightarrow> (string \<times> string) list" where
  "client_headers self =
     [(''Authorization'', ''Bearer '' @ api_key self),
      (''Content-Type'', ''application/json'')]"

definition request_of :: "TogetherAIClient \<Rightarrow> string \<Rightarrow> int \<Rightarrow> real \<Rightarrow> post" where
  "request_of self prompt max_tokens temperature =
     \<lparr>url = base_url self,
      headers = client_headers self,
      json = [(''model'', PStr (model self)),
              (''prompt'', PStr prompt),
              (''max_tokens'', PInt max_tokens),
              (''temperature'', PFloat temperature)]\<rparr>"

text \<open>\<^verbatim>\<open>result['choices'][0]['text']\<close>, left to right, stopping at the first subscript that raises.\<close>

definition first_choice_text :: "pyval \<Rightarrow> exn + pyval" where
  "first_choice_text result =
     (case getitem_str result ''choices'' of
        Inl e \<Rightarrow> Inl e
      | Inr choices \<Rightarrow>
          (case getitem_0 choices of
             Inl e \<Rightarrow> Inl e
           | Inr choice \<Rightarrow> getitem_str choice ''text''))"

text \<open>The five diagnostic lines \<^verbatim>\<open>generate_text\<close> prints, as its f-strings build them.\<close>

definition sending_line :: "TogetherAIClient \<Rightarrow> string" where
  "sending_line self = ''Sending request to Together AI with model: '' @ model self"

definition prompt_line :: "string \<Rightarrow> string" where
  "prompt_line prompt = ''Prompt: '' @ str_slice_to prompt 100 @ ''...''"

definition api_error_line :: "response \<Rightarrow> string" where
  "api_error_line response = ''Error from Together AI API: '' @ response_text response"

definition received_line :: "py_runtime \<Rightarrow> pyval \<Rightarrow> string" where
  "received_line rt shown = ''Response received. First few characters: '' @ fmt rt shown @ ''...''"

definition exception_line :: "py_runtime \<Rightarrow> exn \<Rightarrow> string" where
  "exception_line rt e = ''Exception when calling Together AI API: '' @ str_exn rt e"

text \<open>
  The \<^verbatim>\<open>try\<close> block of \<^verbatim>\<open>generate_text\<close>, statement by statement: the value returned or the
  exception raised, and the world after. The two lines printed first can raise before
  anything is posted. After the post, a status other than 200 prints the body and returns
  the status text; otherwise the body is decoded, the first choice's text is sliced
  (\<^verbatim>\<open>[:100]\<close>) and printed, then looked up again and returned.
\<close>

definition generate_text_try ::
  "py_runtime \<Rightarrow> endpoint \<Rightarrow> TogetherAIClient \<Rightarrow> string \<Rightarrow> int \<Rightarrow> real \<Rightarrow> world \<Rightarrow>
     (exn + pyval) \<times> world" where
  "generate_text_try rt service self prompt max_tokens temperature w =
     (case print_error rt (sending_line self) of
        Some e \<Rightarrow> (Inl e, w)
      | None \<Rightarrow>
          (case print_error rt (prompt_line prompt) of
             Some e \<Rightarrow> (Inl e, w)
           | None \<Rightarrow>
               (let w' = w @ [request_of self prompt max_tokens temperature] in
                (case service w' of
                   Inl e \<Rightarrow> (Inl e, w')
                 | Inr response \<Rightarrow>
                     if status_code response \<noteq> 200 then
                       (case print_error rt (api_error_line response) of
                          Some e \<Rightarrow> (Inl e, w')
                        | None \<Rightarrow>
                            (Inr (PStr (''Error: '' @ str_int (status_code response))), w'))
                     else
                       (case json_body response of
                          Inl e \<Rightarrow> (Inl e, w')
                        | Inr result \<Rightarrow>
                            (case first_choice_text result of
                               Inl e \<Rightarrow> (Inl e, w')
                             | Inr t \<Rightarrow>
                                 (case getslice_to t 100 of
                                    Inl e \<Rightarrow> (Inl e, w')
                                  | Inr shown \<Rightarrow>
                                      (case print_error rt (received_line rt shown) of
                                         Some e \<Rightarrow> (Inl e, w')
                                       | None \<Rightarrow> (first_choice_text result, w')))))))))"

text \<open>
  A client method as the explainer sees it: prompt, \<^verbatim>\<open>max_tokens\<close>, \<^verbatim>\<open>temperature\<close> and the
  world in; the value returned or the exception raised, and the world after, out.
\<close>

type_synonym 'w ai_client = "string \<Rightarrow> int \<Rightarrow> real \<Rightarrow> 'w \<Rightarrow> (exn + pyval) \<times> 'w"

text \<open>
  \<^verbatim>\<open>TogetherAIClient.generate_text\<close>: the \<^verbatim>\<open>except Exception as e\<close> clause prints a line with
  \<^verbatim>\<open>str(e)\<close> and returns the error text; an exception raised by that \<^verbatim>\<open>print\<close> leaves the
  method.
\<close>

definition generate_text :: "py_runtime \<Rightarrow> endpoint \<Rightarrow> TogetherAIClient \<Rightarrow> world ai_client" where
  "generate_text rt service self prompt max_tokens temperature w =
     (case generate_text_try rt service self prompt max_tokens temperature w of
        (Inl e, w') \<Rightarrow>
          (case print_error rt (exception_line rt e) of
             Some e' \<Rightarrow> (Inl e', w')
           | None \<Rightarrow> (Inr (PStr (''Error: '' @ str_exn rt e)), w'))
      | (Inr v, w') \<Rightarrow> (Inr v, w'))"

section \<open>Prompt templates\<close>

text \<open>
  Each of the three composers has two f-string templates, one taken when
  \<^verbatim>\<open>language == "English"\<close> and one otherwise. A template is the concatenation of its literal
  pieces, named \<open>_1\<close>, \<open>_2\<close>, ... in order, and of the interpolated values between them.
  The pieces of the second template of each pair are Arabic text, given by their UTF-8 bytes.
\<close>

definition explanation_en_1 :: string where
  "explanation_en_1 =
     ''You are an expert in Islamic Finance standards, particularly AAOIFI standards.\<newline>'' @
     ''Explain the accounting treatment for the given scenario in simple terms that a non-specialist can understand.\<newline>'' @
     ''Use step-by-step explanations and include the journal entries where appropriate.\<newline>'' @
     ''\<newline>'' @
     ''Standard: ''"

definition explanation_en_2 :: string where
  "explanation_en_2 =
     ''\<newline>'' @
     ''\<newline>'' @
     ''Scenario: ''"

definition explanation_en_3 :: string where
  "explanation_en_3 =
     ''\<newline>'' @
     ''\<newline>'' @
     ''Please explain:\<newline>'' @
     ''1. What this standard is about\<newline>'' @
     ''2. How to account for this transaction step-by-step\<newline>'' @
     ''3. The proper journal entries\<newline>'' @
     ''4. Why this method complies with Islamic finance principles\<newline>''"

definition explanation_ar_1 :: string where
  "explanation_ar_1 =
    [
     CHR 0xD8, CHR 0xA3, CHR 0xD9, CHR 0x86, CHR 0xD8, CHR 0xAA, CHR 0x20, CHR 0xD8, CHR 0xAE, CHR 0xD8,
     CHR 0xA8, CHR 0xD9, CHR 0x8A, CHR 0xD8, CHR 0xB1, CHR 0x20, CHR 0xD9, CHR 0x81, CHR 0xD9, CHR 0x8A,
     CHR 0x20, CHR 0xD9, CHR 0x85, CHR 0xD8, CHR 0xB9, CHR 0xD8, CHR 0xA7, CHR 0xD9, CHR 0x8A, CHR 0xD9,
     CHR 0x8A, CHR 0xD8, CHR 0xB1, CHR 0x20, CHR 0xD8, CHR 0xA7, CHR 0xD9, CHR 0x84, CHR 0xD8, CHR 0xAA,
     CHR 0xD9, CHR 0x85, CHR 0xD9, CHR 0x88, CHR 0xD9, CHR 0x8A, CHR 0xD9, CHR 0x84, CHR 0x20, CHR 0xD8,
     CHR 0xA7, CHR 0xD9, CHR 0x84, CHR 0xD8, CHR 0xA5, CHR 0xD8, CHR 0xB3, CHR 0xD9, CHR 0x84, CHR 0xD8,
     CHR 0xA7, CHR 0xD9, CHR 0x85, CHR 0xD9, CHR 0x8A, CHR 0xD8, CHR 0x8C, CHR 0x20, CHR 0xD8, CHR 0xAE,
     CHR 0xD8, CHR 0xA7, CHR 0xD8, CHR 0xB5, CHR 0xD8, CHR 0xA9, CHR 0x20, CHR 0xD9, CHR 0x85, CHR 0xD8,
     CHR 0xB9, CHR 0xD8, CHR 0xA7, CHR 0xD9, CHR 0x8A, CHR 0xD9, CHR 0x8A, CHR 0xD8, CHR 0xB1, CHR 0x20,
     CHR 0xD9, CHR 0x87, CHR 0xD9, CHR 0x8A, CHR 0xD8, CHR 0xA6, CHR 0xD8, CHR 0xA9, CHR 0x20, CHR 0xD8,
     CHR 0xA7, CHR 0xD9, CHR 0x84, CHR 0xD9, CHR 0x85, CHR 0xD8, CHR 0xAD, CHR 0xD8, CHR 0xA7, CHR 0xD8,
     CHR 0xB3, CHR 0xD8, CHR 0xA8, CHR 0xD8, CHR 0xA9, CHR 0x20, CHR 0xD9, CHR 0x88, CHR 0xD8, CHR 0xA7,
     CHR 0xD9, CHR 0x84, CHR 0xD9, CHR 0x85, CHR 0xD8, CHR 0xB1, CHR 0xD8, CHR 0xA7, CHR 0xD8, CHR 0xAC,
     CHR 0xD8, CHR 0xB9, CHR 0xD8, CHR 0xA9, CHR 0x20, CHR 0xD9, CHR 0x84, CHR 0xD9, CHR 0x84, CHR 0xD9,
     CHR 0x85, CHR 0xD8, CHR 0xA4, CHR 0xD8, CHR 0xB3, CHR 0xD8, CHR 0xB3, CHR 0xD8, CHR 0xA7, CHR 0xD8,
     CHR 0xAA, CHR 0x20, CHR 0xD8, CHR 0xA7, CHR 0xD9, CHR 0x84, CHR 0xD9, CHR 0x85, CHR 0xD8, CHR 0xA7,
     CHR 0xD9, CHR 0x84, CHR 0xD9, CHR 0x8A, CHR 0xD8, CHR 0xA9, CHR 0x20, CHR 0xD8, CHR 0xA7, CHR 0xD9,
     CHR 0x84, CHR 0xD8, CHR 0xA5, CHR 0xD8, CHR 0xB3, CHR 0xD9, CHR 0x84, CHR 0xD8, CHR 0xA7, CHR 0xD9,
     CHR 0x85, CHR 0xD9, CHR 0x8A, CHR 0xD8, CHR 0xA9, CHR 0x2E, CHR 0x0A, CHR 0xD9, CHR 0x82, CHR 0xD9,
     CHR 0x85, CHR 0x20, CHR 0xD8, CHR 0xA8, CHR 0xD8, CHR 0xB4, CHR 0xD8, CHR 0xB1, CHR 0xD8, CHR 0xAD,
     CHR 0x20, CHR 0xD8, CHR 0xA7, CHR 0xD9, CHR 0x84, CHR 0xD9, CHR 0x85, CHR 0xD8, CHR 0xB9, CHR 0xD8,
     CHR 0xA7, CHR 0xD9, CHR 0x84, CHR 0xD8, CHR 0xAC, CHR 0xD8, CHR 0xA9, CHR 0x20, CHR 0xD8, CHR 0xA7,
     CHR 0xD9, CHR 0x84, CHR 0xD9, CHR 0x85, CHR 0xD8, CHR 0xAD, CHR 0xD8, CHR 0xA7, CHR 0xD8, CHR 0xB3,
     CHR 0xD8, CHR 0xA8, CHR 0xD9, CHR 0x8A, CHR 0xD8, CHR 0xA9, CHR 0x20, CHR 0xD9, CHR 0x84, CHR 0xD9,
     CHR 0x84, CHR 0xD8, CHR 0xB3, CHR 0xD9, CHR 0x8A, CHR 0xD9, CHR 0x86, CHR 0xD8, CHR 0xA7, CHR 0xD8,
     CHR 0xB1, CHR 0xD9, CHR 0x8A, CHR 0xD9, CHR 0x88, CHR 0x20, CHR 0xD8, CHR 0xA7, CHR 0xD9, CHR 0x84,
     CHR 0xD9, CHR 0x85, CHR 0xD8, CHR 0xB9, CHR 0xD8, CHR 0xB7, CHR 0xD9, CHR 0x89, CHR 0x20, CHR 0xD8,
     CHR 0xA8, CHR 0xD9, CHR 0x85, CHR 0xD8, CHR 0xB5, CHR 0xD8, CHR 0xB7, CHR 0xD9, CHR 0x84, CHR 0xD8,
     CHR 0xAD, CHR 0xD8, CHR 0xA7, CHR 0xD8, CHR 0xAA, CHR 0x20, CHR 0xD8, CHR 0xA8, CHR 0xD8, CHR 0xB3,
     CHR 0xD9, CHR 0x8A, CHR 0xD8, CHR 0xB7, CHR 0xD8, CHR 0xA9, CHR 0x20, CHR 0xD9, CHR 0x8A, CHR 0xD9,
     CHR 0x85, CHR 0xD9, CHR 0x83, CHR 0xD9, CHR 0x86, CHR 0x20, CHR 0xD9, CHR 0x84, CHR 0xD8, CHR 0xBA,
     CHR 0xD9, CHR 0x8A, CHR 0xD8, CHR 0xB1, CHR 0x20, CHR 0xD8, CHR 0xA7, CHR 0xD9, CHR 0x84, CHR 0xD9,
     CHR 0x85, CHR 0xD8, CHR 0xAA, CHR 0xD8, CHR 0xAE, CHR 0xD8, CHR 0xB5, CHR 0xD8, CHR 0xB5, CHR 0x20,
     CHR 0xD9, CHR 0x81, CHR 0xD9, CHR 0x87, CHR 0xD9, CHR 0x85, CHR 0xD9, CHR 0x87, CHR 0xD8, CHR 0xA7,
     CHR 0x2E, CHR 0x0A, CHR 0xD8, CHR 0xA7, CHR 0xD8, CHR 0xB3, CHR 0xD8, CHR 0xAA, CHR 0xD8, CHR 0xAE,
     CHR 0xD8, CHR 0xAF, CHR 0xD9, CHR 0x85, CHR 0x20, CHR 0xD8, CHR 0xB4, CHR 0xD8, CHR 0xB1, CHR 0xD8,
     CHR 0xAD, CHR 0xD9, CHR 0x8B, CHR 0xD8, CHR 0xA7, CHR 0x20, CHR 0xD8, CHR 0xAE, CHR 0xD8, CHR 0xB7,
     CHR 0xD9, CHR 0x88, CHR 0xD8, CHR 0xA9, CHR 0x20, CHR 0xD8, CHR 0xA8, CHR 0xD8, CHR 0xAE, CHR 0xD8,
     CHR 0xB7, CHR 0xD9, CHR 0x88, CHR 0xD8, CHR 0xA9, CHR 0x20, CHR 0xD9, CHR 0x88, CHR 0xD9, CHR 0x82,
     CHR 0xD9, CHR 0x85, CHR 0x20, CHR 0xD8, CHR 0xA8, CHR 0xD8, CHR 0xAA, CHR 0xD8, CHR 0xB6, CHR 0xD9,
     CHR 0x85, CHR 0xD9, CHR 0x8A, CHR 0xD9, CHR 0x86, CHR 0x20, CHR 0xD9, CHR 0x82, CHR 0xD9, CHR 0x8A,
     CHR 0xD9, CHR 0x88, CHR 0xD8, CHR 0xAF, CHR 0x20, CHR 0xD8, CHR 0xA7, CHR 0xD9, CHR 0x84, CHR 0xD9,
     CHR 0x8A, CHR 0xD9, CHR 0x88, CHR 0xD9, CHR 0x85, CHR 0xD9, CHR 0x8A, CHR 0xD8, CHR 0xA9, CHR 0x20,
     CHR 0xD8, CHR 0xAD, CHR 0xD9, CHR 0x8A, CHR 0xD8, CHR 0xAB, CHR 0xD9, CHR 0x85, CHR 0xD8, CHR 0xA7,
     CHR 0x20, CHR 0xD9, CHR 0x83, CHR 0xD8, CHR 0xA7, CHR 0xD9, CHR 0x86, CHR 0x20, CHR 0xD8, CHR 0xB0,
     CHR 0xD9, CHR 0x84, CHR 0xD9, CHR 0x83, CHR 0x20, CHR 0xD9, CHR 0x85, CHR 0xD9, CHR 0x86, CHR 0xD8,
     CHR 0xA7, CHR 0xD8, CHR 0xB3, CHR 0xD8, CHR 0xA8, CHR 0xD9, CHR 0x8B, CHR 0xD8, CHR 0xA7, CHR 0x2E,
     CHR 0x0A, CHR 0x0A, CHR 0xD8, CHR 0xA7, CHR 0xD9, CHR 0x84, CHR 0xD9, CHR 0x85, CHR 0xD8, CHR 0xB9,
     CHR 0xD9, CHR 0x8A, CHR 0xD8, CHR 0xA7, CHR 0xD8, CHR 0xB1, CHR 0x3A, CHR 0x20]"

definition explanation_ar_2 :: string where
  "explanation_ar_2 =
    [
     CHR 0x0A, CHR 0x0A, CHR 0xD8, CHR 0xA7, CHR 0xD9, CHR 0x84, CHR 0xD8, CHR 0xB3, CHR 0xD9, CHR 0x8A,
     CHR 0xD9, CHR 0x86, CHR 0xD8, CHR 0xA7, CHR 0xD8, CHR 0xB1, CHR 0xD9, CHR 0x8A, CHR 0xD9, CHR 0x88,
     CHR 0x3A, CHR 0x20]"

definition explanation_ar_3 :: string where
  "explanation_ar_3 =
    [
     CHR 0x0A, CHR 0x0A, CHR 0xD9, CHR 0x8A, CHR 0xD8, CHR 0xB1, CHR 0xD8, CHR 0xAC, CHR 0xD9, CHR 0x89,
     CHR 0x20, CHR 0xD8, CHR 0xB4, CHR 0xD8, CHR 0xB1, CHR 0xD8, CHR 0xAD, CHR 0x3A, CHR 0x0A, CHR 0x31,
     CHR 0x2E, CHR 0x20, CHR 0xD9, CHR 0x85, CHR 0xD8, CHR 0xA7, CHR 0x20, CHR 0xD9, CHR 0x87, CHR 0xD9,
     CHR 0x88, CHR 0x20, CHR 0xD9, CHR 0x87, CHR 0xD8, CHR 0xB0, CHR 0xD8, CHR 0xA7, CHR 0x20, CHR 0xD8,
     CHR 0xA7, CHR 0xD9, CHR 0x84, CHR 0xD9, CHR 0x85, CHR 0xD8, CHR 0xB9, CHR 0xD9, CHR 0x8A, CHR 0xD8,
     CHR 0xA7, CHR 0xD8, CHR 0xB1, CHR 0x0A, CHR 0x32, CHR 0x2E, CHR 0x20, CHR 0xD9, CHR 0x83, CHR 0xD9,
     CHR 0x8A, CHR 0xD9, CHR 0x81, CHR 0xD9, CHR 0x8A, CHR 0xD8, CHR 0xA9, CHR 0x20, CHR 0xD8, CHR 0xA7,
     CHR 0xD9, CHR 0x84, CHR 0xD9, CHR 0x85, CHR 0xD8, CHR 0xAD, CHR 0xD8, CHR 0xA7, CHR 0xD8, CHR 0xB3,
     CHR 0xD8, CHR 0xA8, CHR 0xD8, CHR 0xA9, CHR 0x20, CHR 0xD8, CHR 0xB9, CHR 0xD9, CHR 0x86, CHR 0x20,
     CHR 0xD9, CHR 0x87, CHR 0xD8, CHR 0xB0, CHR 0xD9, CHR 0x87, CHR 0x20, CHR 0xD8, CHR 0xA7, CHR 0xD9,
     CHR 0x84, CHR 0xD9, CHR 0x85, CHR 0xD8, CHR 0xB9, CHR 0xD8, CHR 0xA7, CHR 0xD9, CHR 0x85, CHR 0xD9,
     CHR 0x84, CHR 0xD8, CHR 0xA9, CHR 0x20, CHR 0xD8, CHR 0xAE, CHR 0xD8, CHR 0xB7, CHR 0xD9, CHR 0x88,
     CHR 0xD8, CHR 0xA9, CHR 0x20, CHR 0xD8, CHR 0xA8, CHR 0xD8, CHR 0xAE, CHR 0xD8, CHR 0xB7, CHR 0xD9,
     CHR 0x88, CHR 0xD8, CHR 0xA9, CHR 0x0A, CHR 0x33, CHR 0x2E, CHR 0x20, CHR 0xD9, CHR 0x82, CHR 0xD9,
     CHR 0x8A, CHR 0xD9, CHR 0x88, CHR 0xD8, CHR 0xAF, CHR 0x20, CHR 0xD8, CHR 0xA7, CHR 0xD9, CHR 0x84,
     CHR 0xD9, CHR 0x8A, CHR 0xD9, CHR 0x88, CHR 0xD9, CHR 0x85, CHR 0xD9, CHR 0x8A, CHR 0xD8, CHR 0xA9,
     CHR 0x20, CHR 0xD8, CHR 0xA7, CHR 0xD9, CHR 0x84, CHR 0xD9, CHR 0x85, CHR 0xD9, CHR 0x86, CHR 0xD8,
     CHR 0xA7, CHR 0xD8, CHR 0xB3, CHR 0xD8, CHR 0xA8, CHR 0xD8, CHR 0xA9, CHR 0x0A, CHR 0x34, CHR 0x2E,
     CHR 0x20, CHR 0xD9, CHR 0x84, CHR 0xD9, CHR 0x85, CHR 0xD8, CHR 0xA7, CHR 0xD8, CHR 0xB0, CHR 0xD8,
     CHR 0xA7, CHR 0x20, CHR 0xD8, CHR 0xAA, CHR 0xD8, CHR 0xAA, CHR 0xD9, CHR 0x88, CHR 0xD8, CHR 0xA7,
     CHR 0xD9, CHR 0x81, CHR 0xD9, CHR 0x82, CHR 0x20, CHR 0xD9, CHR 0x87, CHR 0xD8, CHR 0xB0, CHR 0xD9,
     CHR 0x87, CHR 0x20, CHR 0xD8, CHR 0xA7, CHR 0xD9, CHR 0x84, CHR 0xD8, CHR 0xB7, CHR 0xD8, CHR 0xB1,
     CHR 0xD9, CHR 0x8A, CHR 0xD9, CHR 0x82, CHR 0xD8, CHR 0xA9, CHR 0x20, CHR 0xD9, CHR 0x85, CHR 0xD8,
     CHR 0xB9, CHR 0x20, CHR 0xD9, CHR 0x85, CHR 0xD8, CHR 0xA8, CHR 0xD8, CHR 0xA7, CHR 0xD8, CHR 0xAF,
     CHR 0xD8, CHR 0xA6, CHR 0x20, CHR 0xD8, CHR 0xA7, CHR 0xD9, CHR 0x84, CHR 0xD8, CHR 0xAA, CHR 0xD9,
     CHR 0x85, CHR 0xD9, CHR 0x88, CHR 0xD9, CHR 0x8A, CHR 0xD9, CHR 0x84, CHR 0x20, CHR 0xD8, CHR 0xA7,
     CHR 0xD9, CHR 0x84, CHR 0xD8, CHR 0xA5, CHR 0xD8, CHR 0xB3, CHR 0xD9, CHR 0x84, CHR 0xD8, CHR 0xA7,
     CHR 0xD9, CHR 0x85, CHR 0xD9, CHR 0x8A, CHR 0x0A]"

definition feedback_en_1 :: string where
  "feedback_en_1 =
     ''You are an expert in Islamic Finance standards. Compare the user's solution to an expert solution and provide feedback.\<newline>'' @
     ''\<newline>'' @
     ''Scenario: ''"

definition feedback_en_2 :: string where
  "feedback_en_2 =
     ''\<newline>'' @
     ''\<newline>'' @
     ''User's solution:\<newline>''"

definition feedback_en_3 :: string where
  "feedback_en_3 =
     ''\<newline>'' @
     ''\<newline>'' @
     ''Expert solution:\<newline>''"

definition feedback_en_4 :: string where
  "feedback_en_4 =
     ''\<newline>'' @
     ''\<newline>'' @
     ''Provide feedback on the user's solution. Highlight what they got correct and what needs improvement.\<newline>'' @
     ''Rate their understanding on a scale of 1-10.\<newline>''"

definition feedback_ar_1 :: string where
  "feedback_ar_1 =
    [
     CHR 0xD8, CHR 0xA3, CHR 0xD9, CHR 0x86, CHR 0xD8, CHR 0xAA, CHR 0x20, CHR 0xD8, CHR 0xAE, CHR 0xD8,
     CHR 0xA8, CHR 0xD9, CHR 0x8A, CHR 0xD8, CHR 0xB1, CHR 0x20, CHR 0xD9, CHR 0x81, CHR 0xD9, CHR 0x8A,
     CHR 0x20, CHR 0xD9, CHR 0x85, CHR 0xD8, CHR 0xB9, CHR 0xD8, CHR 0xA7, CHR 0xD9, CHR 0x8A, CHR 0xD9,
     CHR 0x8A, CHR 0xD8, CHR 0xB1, CHR 0x20, CHR 0xD8, CHR 0xA7, CHR 0xD9, CHR 0x84, CHR 0xD8, CHR 0xAA,
     CHR 0xD9, CHR 0x85, CHR 0xD9, CHR 0x88, CHR 0xD9, CHR 0x8A, CHR 0xD9, CHR 0x84, CHR 0x20, CHR 0xD8,
     CHR 0xA7, CHR 0xD9, CHR 0x84, CHR 0xD8, CHR 0xA5, CHR 0xD8, CHR 0xB3, CHR 0xD9, CHR 0x84, CHR 0xD8,
     CHR 0xA7, CHR 0xD9, CHR 0x85, CHR 0xD9, CHR 0x8A, CHR 0x2E, CHR 0x20, CHR 0xD9, CHR 0x82, CHR 0xD8,
     CHR 0xA7, CHR 0xD8, CHR 0xB1, CHR 0xD9, CHR 0x86, CHR 0x20, CHR 0xD8, CHR 0xAD, CHR 0xD9, CHR 0x84,
     CHR 0x20, CHR 0xD8, CHR 0xA7, CHR 0xD9, CHR 0x84, CHR 0xD9, CHR 0x85, CHR 0xD8, CHR 0xB3, CHR 0xD8,
     CHR 0xAA, CHR 0xD8, CHR 0xAE, CHR 0xD8, CHR 0xAF, CHR 0xD9, CHR 0x85, CHR 0x20, CHR 0xD8, CHR 0xA8,
     CHR 0xD8, CHR 0xAD, CHR 0xD9, CHR 0x84, CHR 0x20, CHR 0xD8, CHR 0xA7, CHR 0xD9, CHR 0x84, CHR 0xD8,
     CHR 0xAE, CHR 0xD8, CHR 0xA8, CHR 0xD9, CHR 0x8A, CHR 0xD8, CHR 0xB1, CHR 0x20, CHR 0xD9, CHR 0x88,
     CHR 0xD9, CHR 0x82, CHR 0xD8, CHR 0xAF, CHR 0xD9, CHR 0x85, CHR 0x20, CHR 0xD8, CHR 0xAA, CHR 0xD8,
     CHR 0xB9, CHR 0xD9, CHR 0x84, CHR 0xD9, CHR 0x8A, CHR 0xD9, CHR 0x82, CHR 0xD8, CHR 0xA7, CHR 0xD8,
     CHR 0xAA, CHR 0x2E, CHR 0x0A, CHR 0x0A, CHR 0xD8, CHR 0xA7, CHR 0xD9, CHR 0x84, CHR 0xD8, CHR 0xB3,
     CHR 0xD9, CHR 0x8A, CHR 0xD9, CHR 0x86, CHR 0xD8, CHR 0xA7, CHR 0xD8, CHR 0xB1, CHR 0xD9, CHR 0x8A,
     CHR 0xD9, CHR 0x88, CHR 0x3A, CHR 0x20]"

definition feedback_ar_2 :: string where
  "feedback_ar_2 =
    [
     CHR 0x0A, CHR 0x0A, CHR 0xD8, CHR 0xAD, CHR 0xD9, CHR 0x84, CHR 0x20, CHR 0xD8, CHR 0xA7, CHR 0xD9,
     CHR 0x84, CHR 0xD9, CHR 0x85, CHR 0xD8, CHR 0xB3, CHR 0xD8, CHR 0xAA, CHR 0xD8, CHR 0xAE, CHR 0xD8,
     CHR 0xAF, CHR 0xD9, CHR 0x85, CHR 0x3A, CHR 0x0A]"

definition feedback_ar_3 :: string where
  "feedback_ar_3 =
    [
     CHR 0x0A, CHR 0x0A, CHR 0xD8, CHR 0xAD, CHR 0xD9, CHR 0x84, CHR 0x20, CHR 0xD8, CHR 0xA7, CHR 0xD9,
     CHR 0x84, CHR 0xD8, CHR 0xAE, CHR 0xD8, CHR 0xA8, CHR 0xD9, CHR 0x8A, CHR 0xD8, CHR 0xB1, CHR 0x3A,
     CHR 0x0A]"

definition feedback_ar_4 :: string where
  "feedback_ar_4 =
    [
     CHR 0x0A, CHR 0x0A, CHR 0xD9, CHR 0x82, CHR 0xD8, CHR 0xAF, CHR 0xD9, CHR 0x85, CHR 0x20, CHR 0xD8,
     CHR 0xAA, CHR 0xD8, CHR 0xB9, CHR 0xD9, CHR 0x84, CHR 0xD9, CHR 0x8A, CHR 0xD9, CHR 0x82, CHR 0xD8,
     CHR 0xA7, CHR 0xD8, CHR 0xAA, CHR 0x20, CHR 0xD8, CHR 0xB9, CHR 0xD9, CHR 0x84, CHR 0xD9, CHR 0x89,
     CHR 0x20, CHR 0xD8, CHR 0xAD, CHR 0xD9, CHR 0x84, CHR 0x20, CHR 0xD8, CHR 0xA7, CHR 0xD9, CHR 0x84,
     CHR 0xD9, CHR 0x85, CHR 0xD8, CHR 0xB3, CHR 0xD8, CHR 0xAA, CHR 0xD8, CHR 0xAE, CHR 0xD8, CHR 0xAF,
     CHR 0xD9, CHR 0x85, CHR 0x2E, CHR 0x20, CHR 0xD8, CHR 0xB3, CHR 0xD9, CHR 0x84, CHR 0xD8, CHR 0xB7,
     CHR 0x20, CHR 0xD8, CHR 0xA7, CHR 0xD9, CHR 0x84, CHR 0xD8, CHR 0xB6, CHR 0xD9, CHR 0x88, CHR 0xD8,
     CHR 0xA1, CHR 0x20, CHR 0xD8, CHR 0xB9, CHR 0xD9, CHR 0x84, CHR 0xD9, CHR 0x89, CHR 0x20, CHR 0xD9,
     CHR 0x85, CHR 0xD8, CHR 0xA7, CHR 0x20, CHR 0xD8, CHR 0xA3, CHR 0xD8, CHR 0xB5, CHR 0xD8, CHR 0xA7,
     CHR 0xD8, CHR 0xA8, CHR 0xD9, CHR 0x88, CHR 0xD9, CHR 0x87, CHR 0x20, CHR 0xD8, CHR 0xA8, CHR 0xD8,
     CHR 0xB4, CHR 0xD9, CHR 0x83, CHR 0xD9, CHR 0x84, CHR 0x20, CHR 0xD8, CHR 0xB5, CHR 0xD8, CHR 0xAD,
     CHR 0xD9, CHR 0x8A, CHR 0xD8, CHR 0xAD, CHR 0x20, CHR 0xD9, CHR 0x88, CHR 0xD9, CHR 0x85, CHR 0xD8,
     CHR 0xA7, CHR 0x20, CHR 0xD9, CHR 0x8A, CHR 0xD8, CHR 0xAD, CHR 0xD8, CHR 0xAA, CHR 0xD8, CHR 0xA7,
     CHR 0xD8, CHR 0xAC, CHR 0x20, CHR 0xD8, CHR 0xA5, CHR 0xD9, CHR 0x84, CHR 0xD9, CHR 0x89, CHR 0x20,
     CHR 0xD8, CHR 0xAA, CHR 0xD8, CHR 0xAD, CHR 0xD8, CHR 0xB3, CHR 0xD9, CHR 0x8A, CHR 0xD9, CHR 0x86,
     CHR 0x2E, CHR 0x0A, CHR 0xD9, CHR 0x82, CHR 0xD9, CHR 0x8A, CHR 0xD9, CHR 0x91, CHR 0xD9, CHR 0x85,
     CHR 0x20, CHR 0xD9, CHR 0x81, CHR 0xD9, CHR 0x87, CHR 0xD9, CHR 0x85, CHR 0xD9, CHR 0x87, CHR 0xD9,
     CHR 0x85, CHR 0x20, CHR 0xD8, CHR 0xB9, CHR 0xD9, CHR 0x84, CHR 0xD9, CHR 0x89, CHR 0x20, CHR 0xD9,
     CHR 0x85, CHR 0xD9, CHR 0x82, CHR 0xD9, CHR 0x8A, CHR 0xD8, CHR 0xA7, CHR 0xD8, CHR 0xB3, CHR 0x20,
     CHR 0xD9, CHR 0x85, CHR 0xD9, CHR 0x86, CHR 0x20, CHR 0x31, CHR 0x20, CHR 0xD8, CHR 0xA5, CHR 0xD9,
     CHR 0x84, CHR 0xD9, CHR 0x89, CHR 0x20, CHR 0x31, CHR 0x30, CHR 0x2E, CHR 0x0A]"

definition question_en_1 :: string where
  "question_en_1 =
     ''You are an expert in Islamic Finance standards, particularly AAOIFI standards.\<newline>'' @
     ''The user has asked the following question about Islamic Finance:\<newline>'' @
     ''\<newline>''"

definition question_en_2 :: string where
  "question_en_2 =
     ''\<newline>'' @
     ''\<newline>'' @
     ''Provide a clear, detailed answer using your knowledge of Islamic finance principles and standards.\<newline>'' @
     ''Reference specific AAOIFI standards when relevant. Make your explanation easy for non-specialists to understand.\<newline>''"

definition question_ar_1 :: string where
  "question_ar_1 =
    [
     CHR 0xD8, CHR 0xA3, CHR 0xD9, CHR 0x86, CHR 0xD8, CHR 0xAA, CHR 0x20, CHR 0xD8, CHR 0xAE, CHR 0xD8,
     CHR 0xA8, CHR 0xD9, CHR 0x8A, CHR 0xD8, CHR 0xB1, CHR 0x20, CHR 0xD9, CHR 0x81, CHR 0xD9, CHR 0x8A,
     CHR 0x20, CHR 0xD9, CHR 0x85, CHR 0xD8, CHR 0xB9, CHR 0xD8, CHR 0xA7, CHR 0xD9, CHR 0x8A, CHR 0xD9,
     CHR 0x8A, CHR 0xD8, CHR 0xB1, CHR 0x20, CHR 0xD8, CHR 0xA7, CHR 0xD9, CHR 0x84, CHR 0xD8, CHR 0xAA,
     CHR 0xD9, CHR 0x85, CHR 0xD9, CHR 0x88, CHR 0xD9, CHR 0x8A, CHR 0xD9, CHR 0x84, CHR 0x20, CHR 0xD8,
     CHR 0xA7, CHR 0xD9, CHR 0x84, CHR 0xD8, CHR 0xA5, CHR 0xD8, CHR 0xB3, CHR 0xD9, CHR 0x84, CHR 0xD8,
     CHR 0xA7, CHR 0xD9, CHR 0x85, CHR 0xD9, CHR 0x8A, CHR 0xD8, CHR 0x8C, CHR 0x20, CHR 0xD8, CHR 0xAE,
     CHR 0xD8, CHR 0xA7, CHR 0xD8, CHR 0xB5, CHR 0xD8, CHR 0xA9, CHR 0x20, CHR 0xD9, CHR 0x85, CHR 0xD8,
     CHR 0xB9, CHR 0xD8, CHR 0xA7, CHR 0xD9, CHR 0x8A, CHR 0xD9, CHR 0x8A, CHR 0xD8, CHR 0xB1, CHR 0x20,
     CHR 0xD9, CHR 0x87, CHR 0xD9, CHR 0x8A, CHR 0xD8, CHR 0xA6, CHR 0xD8, CHR 0xA9, CHR 0x20, CHR 0xD8,
     CHR 0xA7, CHR 0xD9, CHR 0x84, CHR 0xD9, CHR 0x85, CHR 0xD8, CHR 0xAD, CHR 0xD8, CHR 0xA7, CHR 0xD8,
     CHR 0xB3, CHR 0xD8, CHR 0xA8, CHR 0xD8, CHR 0xA9, CHR 0x20, CHR 0xD9, CHR 0x88, CHR 0xD8, CHR 0xA7,
     CHR 0xD9, CHR 0x84, CHR 0xD9, CHR 0x85, CHR 0xD8, CHR 0xB1, CHR 0xD8, CHR 0xA7, CHR 0xD8, CHR 0xAC,
     CHR 0xD8, CHR 0xB9, CHR 0xD8, CHR 0xA9, CHR 0x20, CHR 0xD9, CHR 0x84, CHR 0xD9, CHR 0x84, CHR 0xD9,
     CHR 0x85, CHR 0xD8, CHR 0xA4, CHR 0xD8, CHR 0xB3, CHR 0xD8, CHR 0xB3, CHR 0xD8, CHR 0xA7, CHR 0xD8,
     CHR 0xAA, CHR 0x20, CHR 0xD8, CHR 0xA7, CHR 0xD9, CHR 0x84, CHR 0xD9, CHR 0x85, CHR 0xD8, CHR 0xA7,
     CHR 0xD9, CHR 0x84, CHR 0xD9, CHR 0x8A, CHR 0xD8, CHR 0xA9, CHR 0x20, CHR 0xD8, CHR 0xA7, CHR 0xD9,
     CHR 0x84, CHR 0xD8, CHR 0xA5, CHR 0xD8, CHR 0xB3, CHR 0xD9, CHR 0x84, CHR 0xD8, CHR 0xA7, CHR 0xD9,
     CHR 0x85, CHR 0xD9, CHR 0x8A, CHR 0xD8, CHR 0xA9, CHR 0x2E, CHR 0x0A, CHR 0xD8, CHR 0xB7, CHR 0xD8,
     CHR 0xB1, CHR 0xD8, CHR 0xAD, CHR 0x20, CHR 0xD8, CHR 0xA7, CHR 0xD9, CHR 0x84, CHR 0xD9, CHR 0x85,
     CHR 0xD8, CHR 0xB3, CHR 0xD8, CHR 0xAA, CHR 0xD8, CHR 0xAE, CHR 0xD8, CHR 0xAF, CHR 0xD9, CHR 0x85,
     CHR 0x20, CHR 0xD8, CHR 0xA7, CHR 0xD9, CHR 0x84, CHR 0xD8, CHR 0xB3, CHR 0xD8, CHR 0xA4, CHR 0xD8,
     CHR 0xA7, CHR 0xD9, CHR 0x84, CHR 0x20, CHR 0xD8, CHR 0xA7, CHR 0xD9, CHR 0x84, CHR 0xD8, CHR 0xAA,
     CHR 0xD8, CHR 0xA7, CHR 0xD9, CHR 0x84, CHR 0xD9, CHR 0x8A, CHR 0x20, CHR 0xD8, CHR 0xAD, CHR 0xD9,
     CHR 0x88, CHR 0xD9, CHR 0x84, CHR 0x20, CHR 0xD8, CHR 0xA7, CHR 0xD9, CHR 0x84, CHR 0xD8, CHR 0xAA,
     CHR 0xD9, CHR 0x85, CHR 0xD9, CHR 0x88, CHR 0xD9, CHR 0x8A, CHR 0xD9, CHR 0x84, CHR 0x20, CHR 0xD8,
     CHR 0xA7, CHR 0xD9, CHR 0x84, CHR 0xD8, CHR 0xA5, CHR 0xD8, CHR 0xB3, CHR 0xD9, CHR 0x84, CHR 0xD8,
     CHR 0xA7, CHR 0xD9, CHR 0x85, CHR 0xD9, CHR 0x8A, CHR 0x3A, CHR 0x0A, CHR 0x0A]"

definition question_ar_2 :: string where
  "question_ar_2 =
    [
     CHR 0x0A, CHR 0x0A, CHR 0xD9, CHR 0x82, CHR 0xD8, CHR 0xAF, CHR 0xD9, CHR 0x85, CHR 0x20, CHR 0xD8,
     CHR 0xA5, CHR 0xD8, CHR 0xAC, CHR 0xD8, CHR 0xA7, CHR 0xD8, CHR 0xA8, CHR 0xD8, CHR 0xA9, CHR 0x20,
     CHR 0xD9, CHR 0x88, CHR 0xD8, CHR 0xA7, CHR 0xD8, CHR 0xB6, CHR 0xD8, CHR 0xAD, CHR 0xD8, CHR 0xA9,
     CHR 0x20, CHR 0xD9, CHR 0x88, CHR 0xD9, CHR 0x85, CHR 0xD9, CHR 0x81, CHR 0xD8, CHR 0xB5, CHR 0xD9,
     CHR 0x84, CHR 0xD8, CHR 0xA9, CHR 0x20, CHR 0xD8, CHR 0xA8, CHR 0xD8, CHR 0xA7, CHR 0xD8, CHR 0xB3,
     CHR 0xD8, CHR 0xAA, CHR 0xD8, CHR 0xAE, CHR 0xD8, CHR 0xAF, CHR 0xD8, CHR 0xA7, CHR 0xD9, CHR 0x85,
     CHR 0x20, CHR 0xD9, CHR 0x85, CHR 0xD8, CHR 0xB9, CHR 0xD8, CHR 0xB1, CHR 0xD9, CHR 0x81, CHR 0xD8,
     CHR 0xAA, CHR 0xD9, CHR 0x83, CHR 0x20, CHR 0xD8, CHR 0xA8, CHR 0xD9, CHR 0x85, CHR 0xD8, CHR 0xA8,
     CHR 0xD8, CHR 0xA7, CHR 0xD8, CHR 0xAF, CHR 0xD8, CHR 0xA6, CHR 0x20, CHR 0xD9, CHR 0x88, CHR 0xD9,
     CHR 0x85, CHR 0xD8, CHR 0xB9, CHR 0xD8, CHR 0xA7, CHR 0xD9, CHR 0x8A, CHR 0xD9, CHR 0x8A, CHR 0xD8,
     CHR 0xB1, CHR 0x20, CHR 0xD8, CHR 0xA7, CHR 0xD9, CHR 0x84, CHR 0xD8, CHR 0xAA, CHR 0xD9, CHR 0x85,
     CHR 0xD9, CHR 0x88, CHR 0xD9, CHR 0x8A, CHR 0xD9, CHR 0x84, CHR 0x20, CHR 0xD8, CHR 0xA7, CHR 0xD9,
     CHR 0x84, CHR 0xD8, CHR 0xA5, CHR 0xD8, CHR 0xB3, CHR 0xD9, CHR 0x84, CHR 0xD8, CHR 0xA7, CHR 0xD9,
     CHR 0x85, CHR 0xD9, CHR 0x8A, CHR 0x2E, CHR 0x0A, CHR 0xD8, CHR 0xA3, CHR 0xD8, CHR 0xB4, CHR 0xD8,
     CHR 0xB1, CHR 0x20, CHR 0xD8, CHR 0xA5, CHR 0xD9, CHR 0x84, CHR 0xD9, CHR 0x89, CHR 0x20, CHR 0xD9,
     CHR 0x85, CHR 0xD8, CHR 0xB9, CHR 0xD8, CHR 0xA7, CHR 0xD9, CHR 0x8A, CHR 0xD9, CHR 0x8A, CHR 0xD8,
     CHR 0xB1, CHR 0x20, CHR 0xD9, CHR 0x87, CHR 0xD9, CHR 0x8A, CHR 0xD8, CHR 0xA6, CHR 0xD8, CHR 0xA9,
     CHR 0x20, CHR 0xD8, CHR 0xA7, CHR 0xD9, CHR 0x84, CHR 0xD9, CHR 0x85, CHR 0xD8, CHR 0xAD, CHR 0xD8,
     CHR 0xA7, CHR 0xD8, CHR 0xB3, CHR 0xD8, CHR 0xA8, CHR 0xD8, CHR 0xA9, CHR 0x20, CHR 0xD9, CHR 0x88,
     CHR 0xD8, CHR 0xA7, CHR 0xD9, CHR 0x84, CHR 0xD9, CHR 0x85, CHR 0xD8, CHR 0xB1, CHR 0xD8, CHR 0xA7,
     CHR 0xD8, CHR 0xAC, CHR 0xD8, CHR 0xB9, CHR 0xD8, CHR 0xA9, CHR 0x20, CHR 0xD9, CHR 0x84, CHR 0xD9,
     CHR 0x84, CHR 0xD9, CHR 0x85, CHR 0xD8, CHR 0xA4, CHR 0xD8, CHR 0xB3, CHR 0xD8, CHR 0xB3, CHR 0xD8,
     CHR 0xA7, CHR 0xD8, CHR 0xAA, CHR 0x20, CHR 0xD8, CHR 0xA7, CHR 0xD9, CHR 0x84, CHR 0xD9, CHR 0x85,
     CHR 0xD8, CHR 0xA7, CHR 0xD9, CHR 0x84, CHR 0xD9, CHR 0x8A, CHR 0xD8, CHR 0xA9, CHR 0x20, CHR 0xD8,
     CHR 0xA7, CHR 0xD9, CHR 0x84, CHR 0xD8, CHR 0xA5, CHR 0xD8, CHR 0xB3, CHR 0xD9, CHR 0x84, CHR 0xD8,
     CHR 0xA7, CHR 0xD9, CHR 0x85, CHR 0xD9, CHR 0x8A, CHR 0xD8, CHR 0xA9, CHR 0x20, CHR 0xD8, CHR 0xA7,
     CHR 0xD9, CHR 0x84, CHR 0xD9, CHR 0x85, CHR 0xD8, CHR 0xAD, CHR 0xD8, CHR 0xAF, CHR 0xD8, CHR 0xAF,
     CHR 0xD8, CHR 0xA9, CHR 0x20, CHR 0xD8, CHR 0xB9, CHR 0xD9, CHR 0x86, CHR 0xD8, CHR 0xAF, CHR 0xD9,
     CHR 0x85, CHR 0xD8, CHR 0xA7, CHR 0x20, CHR 0xD9, CHR 0x8A, CHR 0xD9, CHR 0x83, CHR 0xD9, CHR 0x88,
     CHR 0xD9, CHR 0x86, CHR 0x20, CHR 0xD8, CHR 0xB0, CHR 0xD9, CHR 0x84, CHR 0xD9, CHR 0x83, CHR 0x20,
     CHR 0xD8, CHR 0xB0, CHR 0xD8, CHR 0xA7, CHR 0x20, CHR 0xD8, CHR 0xB5, CHR 0xD9, CHR 0x84, CHR 0xD8,
     CHR 0xA9, CHR 0x2E, CHR 0x20, CHR 0xD8, CHR 0xA7, CHR 0xD8, CHR 0xAC, CHR 0xD8, CHR 0xB9, CHR 0xD9,
     CHR 0x84, CHR 0x20, CHR 0xD8, CHR 0xB4, CHR 0xD8, CHR 0xB1, CHR 0xD8, CHR 0xAD, CHR 0xD9, CHR 0x83,
     CHR 0x20, CHR 0xD8, CHR 0xB3, CHR 0xD9, CHR 0x87, CHR 0xD9, CHR 0x84, CHR 0xD8, CHR 0xA7, CHR 0xD9,
     CHR 0x8B, CHR 0x20, CHR 0xD9, CHR 0x84, CHR 0xD8, CHR 0xBA, CHR 0xD9, CHR 0x8A, CHR 0xD8, CHR 0xB1,
     CHR 0x20, CHR 0xD8, CHR 0xA7, CHR 0xD9, CHR 0x84, CHR 0xD9, CHR 0x85, CHR 0xD8, CHR 0xAA, CHR 0xD8,
     CHR 0xAE, CHR 0xD8, CHR 0xB5, CHR 0xD8, CHR 0xB5, CHR 0xD9, CHR 0x8A, CHR 0xD9, CHR 0x86, CHR 0x20,
     CHR 0xD9, CHR 0x84, CHR 0xD9, CHR 0x81, CHR 0xD9, CHR 0x87, CHR 0xD9, CHR 0x85, CHR 0xD9, CHR 0x87,
     CHR 0x2E, CHR 0x0A]"

section \<open>The explainer\<close>

definition explanation_prompt :: "string \<Rightarrow> string \<Rightarrow> string \<Rightarrow> string" where
  "explanation_prompt language standard_title scenario =
     (if language = ''English'' then
        explanation_en_1 @ standard_title @ explanation_en_2 @ scenario @ explanation_en_3
      else
        explanation_ar_1 @ standard_title @ explanation_ar_2 @ scenario @ explanation_ar_3)"

definition feedback_prompt :: "string \<Rightarrow> string \<Rightarrow> string \<Rightarrow> string \<Rightarrow> string" where
  "feedback_prompt language scenario user_solution expert_solution =
     (if language = ''English'' then
        feedback_en_1 @ scenario @ feedback_en_2 @ user_solution @ feedback_en_3 @
        expert_solution @ feedback_en_4
      else
        feedback_ar_1 @ scenario @ feedback_ar_2 @ user_solution @ feedback_ar_3 @
        expert_solution @ feedback_ar_4)"

definition question_prompt :: "string \<Rightarrow> string \<Rightarrow> string" where
  "question_prompt language question =
     (if language = ''English'' then question_en_1 @ question @ question_en_2
      else question_ar_1 @ question @ question_ar_2)"

text \<open>
  The methods of \<^verbatim>\<open>IslamicFinanceStandardsExplainer\<close>. The client is the object the
  explainer was built with; the arguments are whatever the caller passes, interpolated by
  the f-string. The \<^verbatim>\<open>standard\<close> argument of \<^verbatim>\<open>get_explanation\<close> is not used.
\<close>

definition explainer_get_explanation ::
  "py_runtime \<Rightarrow> 'w ai_client \<Rightarrow> pyval \<Rightarrow> pyval \<Rightarrow> pyval \<Rightarrow> string \<Rightarrow> 'w \<Rightarrow> (exn + pyval) \<times> 'w" where
  "explainer_get_explanation rt ai_client standard standard_title scenario language w =
     ai_client (explanation_prompt language (fmt rt standard_title) (fmt rt scenario)) 2048 0.5 w"

definition explainer_get_feedback ::
  "py_runtime \<Rightarrow> 'w ai_client \<Rightarrow> pyval \<Rightarrow> pyval \<Rightarrow> pyval \<Rightarrow> string \<Rightarrow> 'w \<Rightarrow> (exn + pyval) \<times> 'w" where
  "explainer_get_feedback rt ai_client scenario user_solution expert_solution language w =
     ai_client
       (feedback_prompt language (fmt rt scenario) (fmt rt user_solution) (fmt rt expert_solution))
       1024 0.5 w"

definition explainer_ask_custom_question ::
  "py_runtime \<Rightarrow> 'w ai_client \<Rightarrow> pyval \<Rightarrow> string \<Rightarrow> 'w \<Rightarrow> (exn + pyval) \<times> 'w" where
  "explainer_ask_custom_question rt ai_client question language w =
     ai_client (question_prompt language (fmt rt question)) 1536 0.7 w"

section \<open>Reference data and request handlers\<close>

text \<open>The three module-level collections, each whatever \<^verbatim>\<open>json.load\<close> returned.\<close>

record store =
  standards :: pyval
  examples :: pyval
  glossary :: pyval

text \<open>The request bodies, validated by the framework: every field is a \<^verbatim>\<open>str\<close>.\<close>

record ExplanationRequest =
  standard_id :: string
  scenario :: string
  language :: string

record FeedbackRequest =
  fb_standard_id :: string
  user_solution :: string
  fb_language :: string

record QuestionRequest =
  question :: string
  q_language :: string

text \<open>
  \<^verbatim>\<open>next((s for s in items if s[key] == wanted), None)\<close>: the items are tried in order, the
  subscript is evaluated on each (and may raise), the first item whose value equals the
  wanted \<^verbatim>\<open>str\<close> is the result, \<^verbatim>\<open>None\<close> when the items run out.
\<close>

fun next_match :: "string \<Rightarrow> string \<Rightarrow> pyval list \<Rightarrow> exn + pyval" where
  "next_match key wanted [] = Inr PNone"
| "next_match key wanted (s # ss) =
     (case getitem_str s key of
        Inl e \<Rightarrow> Inl e
      | Inr v \<Rightarrow> if v = PStr wanted then Inr s else next_match key wanted ss)"

definition find_by :: "string \<Rightarrow> string \<Rightarrow> pyval \<Rightarrow> exn + pyval" where
  "find_by key wanted collection =
     (case py_iter collection of
        Inl e \<Rightarrow> Inl e
      | Inr items \<Rightarrow> next_match key wanted items)"

text \<open>
  The lookups both handlers start with: the standard, then the example, each followed by
  its \<^verbatim>\<open>if not ...: raise HTTPException(status_code=404, ...)\<close>.
\<close>

definition resolve :: "store \<Rightarrow> string \<Rightarrow> exn + pyval \<times> pyval" where
  "resolve st sid =
     (case find_by ''id'' sid (standards st) of
        Inl e \<Rightarrow> Inl e
      | Inr standard \<Rightarrow>
          if \<not> truthy standard then Inl (HTTPException 404 ''Standard not found'')
          else
            (case find_by ''standard_id'' sid (examples st) of
               Inl e \<Rightarrow> Inl e
             | Inr example \<Rightarrow>
                 if \<not> truthy example then Inl (HTTPException 404 ''Example not found'')
                 else Inr (standard, example)))"

text \<open>
  A handler's \<^verbatim>\<open>except Exception as e\<close> around its whole body: \<^verbatim>\<open>HTTPException\<close> is an
  \<^verbatim>\<open>Exception\<close>, so the clause catches whatever the body raised. It prints
  \<^verbatim>\<open>"Error in <name> endpoint: "\<close> followed by \<^verbatim>\<open>str(e)\<close>, then raises
  \<^verbatim>\<open>HTTPException(status_code=500, detail=str(e))\<close>; an exception raised by the \<^verbatim>\<open>print\<close>
  leaves the handler instead.
\<close>

definition endpoint_error_line :: "py_runtime \<Rightarrow> string \<Rightarrow> exn \<Rightarrow> string" where
  "endpoint_error_line rt name e = ''Error in '' @ name @ '' endpoint: '' @ str_exn rt e"

definition except_500 ::
  "py_runtime \<Rightarrow> string \<Rightarrow> (exn + pyval) \<times> 'w \<Rightarrow> (exn + pyval) \<times> 'w" where
  "except_500 rt name outcome =
     (case outcome of
        (Inl e, w) \<Rightarrow>
          (case print_error rt (endpoint_error_line rt name e) of
             Some e' \<Rightarrow> (Inl e', w)
           | None \<Rightarrow> (Inl (HTTPException 500 (str_exn rt e)), w))
      | (Inr v, w) \<Rightarrow> (Inr v, w))"

text \<open>The body of \<^verbatim>\<open>POST /api/explanation\<close>, inside its \<^verbatim>\<open>try\<close>.\<close>

definition get_explanation_try ::
  "py_runtime \<Rightarrow> 'w ai_client \<Rightarrow> store \<Rightarrow> ExplanationRequest \<Rightarrow> 'w \<Rightarrow> (exn + pyval) \<times> 'w" where
  "get_explanation_try rt ai_client st request w =
     (case resolve st (standard_id request) of
        Inl e \<Rightarrow> (Inl e, w)
      | Inr (standard, example) \<Rightarrow>
          (let title_key = (if language request = ''English'' then ''title_en'' else ''title_ar'') in
           (case getitem_str standard title_key of
              Inl e \<Rightarrow> (Inl e, w)
            | Inr title \<Rightarrow>
                (case explainer_get_explanation rt ai_client (PStr (standard_id request)) title
                        (PStr (scenario request)) (language request) w of
                   (Inl e, w') \<Rightarrow> (Inl e, w')
                 | (Inr explanation, w') \<Rightarrow> (Inr (PDict [(''explanation'', explanation)]), w')))))"

definition get_explanation ::
  "py_runtime \<Rightarrow> 'w ai_client \<Rightarrow> store \<Rightarrow> ExplanationRequest \<Rightarrow> 'w \<Rightarrow> (exn + pyval) \<times> 'w" where
  "get_explanation rt ai_client st request w =
     except_500 rt ''explanation'' (get_explanation_try rt ai_client st request w)"

text \<open>
  The body of \<^verbatim>\<open>POST /api/feedback\<close>. The arguments of the first call are evaluated left to
  right before it is made; \<^verbatim>\<open>example[scenario_key]\<close> is evaluated again for the second call.
\<close>

definition get_feedback_try ::
  "py_runtime \<Rightarrow> 'w ai_client \<Rightarrow> store \<Rightarrow> FeedbackRequest \<Rightarrow> 'w \<Rightarrow> (exn + pyval) \<times> 'w" where
  "get_feedback_try rt ai_client st request w =
     (case resolve st (fb_standard_id request) of
        Inl e \<Rightarrow> (Inl e, w)
      | Inr (standard, example) \<Rightarrow>
          (let scenario_key =
                 (if fb_language request = ''English'' then ''scenario_en'' else ''scenario_ar'');
               title_key = (if fb_language request = ''English'' then ''title_en'' else ''title_ar'')
           in
           (case getitem_str standard title_key of
              Inl e \<Rightarrow> (Inl e, w)
            | Inr title \<Rightarrow>
                (case getitem_str example scenario_key of
                   Inl e \<Rightarrow> (Inl e, w)
                 | Inr scenario1 \<Rightarrow>
                     (case explainer_get_explanation rt ai_client (PStr (fb_standard_id request))
                             title scenario1 (fb_language request) w of
                        (Inl e, w1) \<Rightarrow> (Inl e, w1)
                      | (Inr expert_solution, w1) \<Rightarrow>
                          (case getitem_str example scenario_key of
                             Inl e \<Rightarrow> (Inl e, w1)
                           | Inr scenario2 \<Rightarrow>
                               (case explainer_get_feedback rt ai_client scenario2
                                       (PStr (user_solution request)) expert_solution
                                       (fb_language request) w1 of
                                  (Inl e, w2) \<Rightarrow> (Inl e, w2)
                                | (Inr feedback, w2) \<Rightarrow>
                                    (Inr (PDict [(''feedback'', feedback),
                                                 (''expert_solution'', expert_solution)]),
                                     w2))))))))"

definition get_feedback ::
  "py_runtime \<Rightarrow> 'w ai_client \<Rightarrow> store \<Rightarrow> FeedbackRequest \<Rightarrow> 'w \<Rightarrow> (exn + pyval) \<times> 'w" where
  "get_feedback rt ai_client st request w =
     except_500 rt ''feedback'' (get_feedback_try rt ai_client st request w)"

text \<open>\<^verbatim>\<open>POST /api/ask\<close>. The module-level data is in scope, as in every handler.\<close>

definition ask_question_try ::
  "py_runtime \<Rightarrow> 'w ai_client \<Rightarrow> store \<Rightarrow> QuestionRequest \<Rightarrow> 'w \<Rightarrow> (exn + pyval) \<times> 'w" where
  "ask_question_try rt ai_client st request w =
     (case explainer_ask_custom_question rt ai_client (PStr (question request))
             (q_language request) w of
        (Inl e, w') \<Rightarrow> (Inl e, w')
      | (Inr answer, w') \<Rightarrow> (Inr (PDict [(''answer'', answer)]), w'))"

definition ask_question ::
  "py_runtime \<Rightarrow> 'w ai_client \<Rightarrow> store \<Rightarrow> QuestionRequest \<Rightarrow> 'w \<Rightarrow> (exn + pyval) \<times> 'w" where
  "ask_question rt ai_client st request w =
     except_500 rt ''ask'' (ask_question_try rt ai_client st request w)"

section \<open>Loading the reference data at start-up\<close>

text \<open>
  The file system as the module-level block uses it: the directories that exist and the
  content of each file, by path. Opening a missing file for reading, or a file in a missing
  directory for writing, raises \<^verbatim>\<open>FileNotFoundError\<close>; other failures of the operating
  system are outside the model.
\<close>

record filesystem =
  dirs :: "string set"
  files :: "string \<rightharpoonup> string"

definition read_json :: "py_runtime \<Rightarrow> filesystem \<Rightarrow> string \<Rightarrow> exn + pyval" where
  "read_json rt fs path =
     (case files fs path of
        None \<Rightarrow> Inl (FileNotFoundError path)
      | Some content \<Rightarrow> json_loads rt content)"

definition makedirs_exist_ok :: "filesystem \<Rightarrow> string \<Rightarrow> filesystem" where
  "makedirs_exist_ok fs d = fs\<lparr>dirs := insert d (dirs fs)\<rparr>"

definition write_json ::
  "py_runtime \<Rightarrow> filesystem \<Rightarrow> string \<Rightarrow> string \<Rightarrow> pyval \<Rightarrow> exn + filesystem" where
  "write_json rt fs d path v =
     (if d \<in> dirs fs then Inr (fs\<lparr>files := (files fs)(path \<mapsto> json_dumps rt v)\<rparr>)
      else Inl (FileNotFoundError path))"

text \<open>The \<^verbatim>\<open>try\<close> block: the three files are read in order; the first failure ends it.\<close>

definition load_try :: "py_runtime \<Rightarrow> filesystem \<Rightarrow> exn + store" where
  "load_try rt fs =
     (case read_json rt fs ''data/standards.json'' of
        Inl e \<Rightarrow> Inl e
      | Inr s \<Rightarrow>
          (case read_json rt fs ''data/examples.json'' of
             Inl e \<Rightarrow> Inl e
           | Inr e \<Rightarrow>
               (case read_json rt fs ''data/glossary.json'' of
                  Inl e \<Rightarrow> Inl e
                | Inr g \<Rightarrow> Inr \<lparr>standards = s, examples = e, glossary = g\<rparr>)))"

text \<open>
  The \<^verbatim>\<open>except FileNotFoundError\<close> block: three empty lists, the directory, and the three
  files written from them.
\<close>

definition bootstrap :: "py_runtime \<Rightarrow> filesystem \<Rightarrow> exn + store \<times> filesystem" where
  "bootstrap rt fs =
     (let st = \<lparr>standards = PList [], examples = PList [], glossary = PList []\<rparr>;
          fs0 = makedirs_exist_ok fs ''data''
      in
      (case write_json rt fs0 ''data'' ''data/standards.json'' (standards st) of
         Inl e \<Rightarrow> Inl e
       | Inr fs1 \<Rightarrow>
           (case write_json rt fs1 ''data'' ''data/examples.json'' (examples st) of
              Inl e \<Rightarrow> Inl e
            | Inr fs2 \<Rightarrow>
                (case write_json rt fs2 ''data'' ''data/glossary.json'' (glossary st) of
                   Inl e \<Rightarrow> Inl e
                 | Inr fs3 \<Rightarrow> Inr (st, fs3)))))"

text \<open>The whole block: any exception other than \<^verbatim>\<open>FileNotFoundError\<close> ends the module's import.\<close>

definition load_data :: "py_runtime \<Rightarrow> filesystem \<Rightarrow> exn + store \<times> filesystem" where
  "load_data rt fs =
     (case load_try rt fs of
        Inr st \<Rightarrow> Inr (st, fs)
      | Inl (FileNotFoundError p) \<Rightarrow> bootstrap rt fs
      | Inl e \<Rightarrow> Inl e)"

section \<open>Concrete data\<close>

text \<open>
  Runtimes, a client, completion services and a small reference store on which the
  theorems below are instantiated. \<open>demo_str_exn\<close> shows an \<^verbatim>\<open>HTTPException\<close> as
  \<^verbatim>\<open>"<status>: <detail>"\<close> and a transport or decoding failure by its message.
\<close>

fun demo_str_exn :: "exn \<Rightarrow> string" where
  "demo_str_exn (HTTPException c d) = str_int c @ '': '' @ d"
| "demo_str_exn (RequestException m) = m"
| "demo_str_exn (JSONDecodeError m) = m"
| "demo_str_exn (FileNotFoundError p) = p"
| "demo_str_exn (KeyError k) = ''key''"
| "demo_str_exn (IndexError (PStr s)) = ''string index out of range''"
| "demo_str_exn (IndexError v) = ''list index out of range''"
| "demo_str_exn (TypeError v (Getslice n)) = ''object is not subscriptable''"
| "demo_str_exn (TypeError v op) = ''bad operand type''"
| "demo_str_exn (UnicodeEncodeError line) = ''ordinal not in range(128)''"

fun demo_str_val :: "pyval \<Rightarrow> string" where
  "demo_str_val PNone = ''None''"
| "demo_str_val v = ''[]''"

fun demo_json_loads :: "string \<Rightarrow> exn + pyval" where
  "demo_json_loads s = (if s = ''[]'' then Inr (PList []) else Inl (JSONDecodeError s))"

fun demo_json_dumps :: "pyval \<Rightarrow> string" where
  "demo_json_dumps (PList []) = ''[]''"
| "demo_json_dumps v = ''null''"

text \<open>A standard output that takes every line, and one that takes ASCII only.\<close>

definition accepting :: "string \<Rightarrow> exn option" where
  "accepting line = None"

definition ascii_only :: "string \<Rightarrow> exn option" where
  "ascii_only line =
     (if list_all (\<lambda>c. (of_char c :: nat) < 128) line then None
      else Some (UnicodeEncodeError line))"

definition demo_runtime :: py_runtime where
  "demo_runtime =
     \<lparr>str_exn = demo_str_exn, str_val = demo_str_val,
      json_loads = demo_json_loads, json_dumps = demo_json_dumps,
      print_error = accepting\<rparr>"

definition ascii_runtime :: py_runtime where
  "ascii_runtime =
     \<lparr>str_exn = demo_str_exn, str_val = demo_str_val,
      json_loads = demo_json_loads, json_dumps = demo_json_dumps,
      print_error = ascii_only\<rparr>"

definition demo_client :: TogetherAIClient where
  "demo_client = \<lparr>api_key = ''key'', model = ''mistralai/Mistral-7B-Instruct-v0.2''\<rparr>"

text \<open>A service that answers every request with the same outcome.\<close>

definition replying :: "exn + response \<Rightarrow> endpoint" where
  "replying outcome w = outcome"

text \<open>
  Responses: \<^verbatim>\<open>200 {"choices": [{"text": "<t>"}]}\<close> for a string \<open>t\<close> that needs no escaping;
  the same with an empty array and with a number in the place of the text; a 200 without
  choices; a 200 whose body is not JSON; a 503.
\<close>

definition completion :: "string \<Rightarrow> response" where
  \<open>completion t =
     \<lparr>status_code = 200,
      response_text = ''{"choices": [{"text": "'' @ t @ ''"}]}'',
      json_body = Inr (PDict [(''choices'', PList [PDict [(''text'', PStr t)]])])\<rparr>\<close>

definition array_completion :: response where
  \<open>array_completion =
     \<lparr>status_code = 200,
      response_text = ''{"choices": [{"text": []}]}'',
      json_body = Inr (PDict [(''choices'', PList [PDict [(''text'', PList [])]])])\<rparr>\<close>

definition number_completion :: response where
  \<open>number_completion =
     \<lparr>status_code = 200,
      response_text = ''{"choices": [{"text": 5}]}'',
      json_body = Inr (PDict [(''choices'', PList [PDict [(''text'', PInt 5)]])])\<rparr>\<close>

definition no_choices :: response where
  \<open>no_choices =
     \<lparr>status_code = 200,
      response_text = ''{"choices": []}'',
      json_body = Inr (PDict [(''choices'', PList [])])\<rparr>\<close>

definition html_page :: response where
  "html_page =
     \<lparr>status_code = 200,
      response_text = ''<html>Maintenance</html>'',
      json_body = Inl (JSONDecodeError ''Expecting value'')\<rparr>"

definition unavailable :: response where
  "unavailable =
     \<lparr>status_code = 503,
      response_text = ''Service Unavailable'',
      json_body = Inl (JSONDecodeError ''Expecting value'')\<rparr>"

text \<open>A transport failure whose message has a character outside ASCII (an accented e).\<close>

definition refused :: exn where
  "refused = RequestException (''Connexion refus'' @ [CHR 0xC3, CHR 0xA9] @ ''e'')"

text \<open>A service whose first request times out and whose later requests succeed.\<close>

definition failing_once :: endpoint where
  "failing_once w =
     (if length w = 1 then Inl (RequestException ''Read timed out.'')
      else Inr (completion ''Rated 7 of 10''))"

text \<open>A stubbed client: it returns the given value and leaves the world alone.\<close>

definition stub_client :: "pyval \<Rightarrow> 'w ai_client" where
  "stub_client v prompt max_tokens temperature w = (Inr v, w)"

text \<open>
  A scripted client: the world is the number of calls made so far, and the \<open>n\<close>-th call
  returns or raises what the script says (\<^verbatim>\<open>None\<close> once the script is used up).
\<close>

definition scripted :: "(exn + pyval) list \<Rightarrow> nat ai_client" where
  "scripted script prompt max_tokens temperature n =
     (case drop n script of [] \<Rightarrow> Inr PNone | outcome # _ \<Rightarrow> outcome, Suc n)"

text \<open>
  Three standards, the last repeating the identifier of the one before it, and two
  examples, both for that identifier; the first standard has no example.
\<close>

definition demo_store :: store where
  "demo_store =
     \<lparr>standards = PList
        [PDict [(''id'', PStr ''FAS28''), (''title_en'', PStr ''Deferred Payment Sales''),
                (''title_ar'', PStr ''al-Bay'')],
         PDict [(''id'', PStr ''FAS4''), (''title_en'', PStr ''Murabaha''),
                (''title_ar'', PStr ''al-Murabaha'')],
         PDict [(''id'', PStr ''FAS4''), (''title_en'', PStr ''Duplicate''),
                (''title_ar'', PStr ''Duplicate'')]],
      examples = PList
        [PDict [(''standard_id'', PStr ''FAS4''),
                (''scenario_en'', PStr ''Cost 100, sold at cost + 10%''),
                (''scenario_ar'', PStr ''100 + 10%'')],
         PDict [(''standard_id'', PStr ''FAS4''),
                (''scenario_en'', PStr ''Rent of 5% per year''),
                (''scenario_ar'', PStr ''Second'')]],
      glossary = PList []\<rparr>"

section \<open>The generation client: errors become text\<close>



lemma generate_text_raises_from_print:
  assumes "generate_text rt service self prompt mt temp w = (Inl e', w')"
  shows "\<exists>e. print_error rt (exception_line rt e) = Some e'"
  using assms by (auto simp: generate_text_def split: prod.splits sum.splits option.splits)

lemma generate_text_returns:
  assumes "\<forall>e. print_error rt (exception_line rt e) = None"
  shows "\<exists>v w'. generate_text rt service self prompt mt temp w = (Inr v, w')"
proof (cases "generate_text rt service self prompt mt temp w")
  case (Pair r w')
  show ?thesis
  proof (cases r)
    case (Inl e')
    with Pair generate_text_raises_from_print assms show ?thesis by fastforce
  next
    case (Inr v)
    with Pair show ?thesis by blast
  qed
qed

lemma generate_text_world:
  "snd (generate_text rt service self prompt mt temp w) =
     (if print_error rt (sending_line self) = None \<and> print_error rt (prompt_line prompt) = None
      then w @ [request_of self prompt mt temp] else w)"
  by (simp add: generate_text_def generate_text_try_def Let_def
        split: prod.splits sum.splits option.splits)

text \<open>
  Claim C2, as amended. \<^verbatim>\<open>generate_text\<close> posts at most one request and raises only what
  the \<^verbatim>\<open>print\<close> of its own \<^verbatim>\<open>except\<close> clause raises; when that line can always be written it
  never raises. Every exception inside the \<^verbatim>\<open>try\<close> then comes back as \<^verbatim>\<open>"Error: "\<close> followed by
  its description: a diagnostic line that cannot be written (the first two before anything
  is posted), a transport-level failure, a body that does not parse as JSON, a failing
  subscript in \<^verbatim>\<open>result['choices'][0]['text']\<close>, a text that cannot be sliced. On a status
  other than 200, once the body line is written, the value is \<^verbatim>\<open>"Error: "\<close> followed by the
  status code. In the one remaining case the first choice's text is returned as it is,
  whatever its type.
\<close>

theorem generate_text_error_text:
  "((\<forall>e. print_error rt (exception_line rt e) = None) \<longrightarrow>
      (\<exists>v w'. generate_text rt service self prompt mt temp w = (Inr v, w'))) \<and>
   (\<forall>e' w'. generate_text rt service self prompt mt temp w = (Inl e', w') \<longrightarrow>
      (\<exists>e. print_error rt (exception_line rt e) = Some e')) \<and>
   snd (generate_text rt service self prompt mt temp w) =
     (if print_error rt (sending_line self) = None \<and> print_error rt (prompt_line prompt) = None
      then w @ [request_of self prompt mt temp] else w) \<and>
   (\<forall>e. print_error rt (exception_line rt e) = None \<and>
        (print_error rt (sending_line self) = Some e \<or>
         print_error rt (sending_line self) = None \<and>
         print_error rt (prompt_line prompt) = Some e) \<longrightarrow>
        generate_text rt service self prompt mt temp w =
          (Inr (PStr (''Error: '' @ str_exn rt e)), w)) \<and>
   (\<forall>e. print_error rt (exception_line rt e) = None \<and>
        print_error rt (sending_line self) = None \<and>
        print_error rt (prompt_line prompt) = None \<and>
        service (w @ [request_of self prompt mt temp]) = Inl e \<longrightarrow>
        fst (generate_text rt service self prompt mt temp w) =
          Inr (PStr (''Error: '' @ str_exn rt e))) \<and>
   (\<forall>r. print_error rt (sending_line self) = None \<and>
        print_error rt (prompt_line prompt) = None \<and>
        service (w @ [request_of self prompt mt temp]) = Inr r \<and> status_code r \<noteq> 200 \<and>
        print_error rt (api_error_line r) = None \<longrightarrow>
        fst (generate_text rt service self prompt mt temp w) =
          Inr (PStr (''Error: '' @ str_int (status_code r)))) \<and>
   (\<forall>r e. print_error rt (exception_line rt e) = None \<and>
        print_error rt (sending_line self) = None \<and>
        print_error rt (prompt_line prompt) = None \<and>
        service (w @ [request_of self prompt mt temp]) = Inr r \<and> status_code r \<noteq> 200 \<and>
        print_error rt (api_error_line r) = Some e \<longrightarrow>
        fst (generate_text rt service self prompt mt temp w) =
          Inr (PStr (''Error: '' @ str_exn rt e))) \<and>
   (\<forall>r e. print_error rt (exception_line rt e) = None \<and>
        print_error rt (sending_line self) = None \<and>
        print_error rt (prompt_line prompt) = None \<and>
        service (w @ [request_of self prompt mt temp]) = Inr r \<and> status_code r = 200 \<and>
        json_body r = Inl e \<longrightarrow>
        fst (generate_text rt service self prompt mt temp w) =
          Inr (PStr (''Error: '' @ str_exn rt e))) \<and>
   (\<forall>r result e. print_error rt (exception_line rt e) = None \<and>
        print_error rt (sending_line self) = None \<and>
        print_error rt (prompt_line prompt) = None \<and>
        service (w @ [request_of self prompt mt temp]) = Inr r \<and> status_code r = 200 \<and>
        json_body r = Inr result \<and> first_choice_text result = Inl e \<longrightarrow>
        fst (generate_text rt service self prompt mt temp w) =
          Inr (PStr (''Error: '' @ str_exn rt e))) \<and>
   (\<forall>r result t e. print_error rt (exception_line rt e) = None \<and>
        print_error rt (sending_line self) = None \<and>
        print_error rt (prompt_line prompt) = None \<and>
        service (w @ [request_of self prompt mt temp]) = Inr r \<and> status_code r = 200 \<and>
        json_body r = Inr result \<and> first_choice_text result = Inr t \<and>
        getslice_to t 100 = Inl e \<longrightarrow>
        fst (generate_text rt service self prompt mt temp w) =
          Inr (PStr (''Error: '' @ str_exn rt e))) \<and>
   (\<forall>r result t shown e. print_error rt (exception_line rt e) = None \<and>
        print_error rt (sending_line self) = None \<and>
        print_error rt (prompt_line prompt) = None \<and>
        service (w @ [request_of self prompt mt temp]) = Inr r \<and> status_code r = 200 \<and>
        json_body r = Inr result \<and> first_choice_text result = Inr t \<and>
        getslice_to t 100 = Inr shown \<and> print_error rt (received_line rt shown) = Some e \<longrightarrow>
        fst (generate_text rt service self prompt mt temp w) =
          Inr (PStr (''Error: '' @ str_exn rt e))) \<and>
   (\<forall>r result t shown. print_error rt (sending_line self) = None \<and>
        print_error rt (prompt_line prompt) = None \<and>
        service (w @ [request_of self prompt mt temp]) = Inr r \<and> status_code r = 200 \<and>
        json_body r = Inr result \<and> first_choice_text result = Inr t \<and>
        getslice_to t 100 = Inr shown \<and> print_error rt (received_line rt shown) = None \<longrightarrow>
        fst (generate_text rt service self prompt mt temp w) = Inr t)"
proof -
  let ?rq = "request_of self prompt mt temp"
  let ?g = "generate_text rt service self prompt mt temp w"
  have returns: "(\<forall>e. print_error rt (exception_line rt e) = None) \<longrightarrow>
      (\<exists>v w'. ?g = (Inr v, w'))"
    using generate_text_returns by blast
  have raises: "\<forall>e' w'. ?g = (Inl e', w') \<longrightarrow>
      (\<exists>e. print_error rt (exception_line rt e) = Some e')"
    using generate_text_raises_from_print by blast
  have before: "\<forall>e. print_error rt (exception_line rt e) = None \<and>
        (print_error rt (sending_line self) = Some e \<or>
         print_error rt (sending_line self) = None \<and>
         print_error rt (prompt_line prompt) = Some e) \<longrightarrow>
        ?g = (Inr (PStr (''Error: '' @ str_exn rt e)), w)"
    by (auto simp: generate_text_def generate_text_try_def)
  have transport: "\<forall>e. print_error rt (exception_line rt e) = None \<and>
        print_error rt (sending_line self) = None \<and>
        print_error rt (prompt_line prompt) = None \<and> service (w @ [?rq]) = Inl e \<longrightarrow>
        fst ?g = Inr (PStr (''Error: '' @ str_exn rt e))"
    by (simp add: generate_text_def generate_text_try_def Let_def)
  have status: "\<forall>r. print_error rt (sending_line self) = None \<and>
        print_error rt (prompt_line prompt) = None \<and>
        service (w @ [?rq]) = Inr r \<and> status_code r \<noteq> 200 \<and>
        print_error rt (api_error_line r) = None \<longrightarrow>
        fst ?g = Inr (PStr (''Error: '' @ str_int (status_code r)))"
    by (simp add: generate_text_def generate_text_try_def Let_def)
  have body_line: "\<forall>r e. print_error rt (exception_line rt e) = None \<and>
        print_error rt (sending_line self) = None \<and>
        print_error rt (prompt_line prompt) = None \<and>
        service (w @ [?rq]) = Inr r \<and> status_code r \<noteq> 200 \<and>
        print_error rt (api_error_line r) = Some e \<longrightarrow>
        fst ?g = Inr (PStr (''Error: '' @ str_exn rt e))"
    by (simp add: generate_text_def generate_text_try_def Let_def)
  have decode: "\<forall>r e. print_error rt (exception_line rt e) = None \<and>
        print_error rt (sending_line self) = None \<and>
        print_error rt (prompt_line prompt) = None \<and>
        service (w @ [?rq]) = Inr r \<and> status_code r = 200 \<and> json_body r = Inl e \<longrightarrow>
        fst ?g = Inr (PStr (''Error: '' @ str_exn rt e))"
    by (simp add: generate_text_def generate_text_try_def Let_def)
  have subscript: "\<forall>r result e. print_error rt (exception_line rt e) = None \<and>
        print_error rt (sending_line self) = None \<and>
        print_error rt (prompt_line prompt) = None \<and>
        service (w @ [?rq]) = Inr r \<and> status_code r = 200 \<and>
        json_body r = Inr result \<and> first_choice_text result = Inl e \<longrightarrow>
        fst ?g = Inr (PStr (''Error: '' @ str_exn rt e))"
    by (simp add: generate_text_def generate_text_try_def Let_def)
  have slice: "\<forall>r result t e. print_error rt (exception_line rt e) = None \<and>
        print_error rt (sending_line self) = None \<and>
        print_error rt (prompt_line prompt) = None \<and>
        service (w @ [?rq]) = Inr r \<and> status_code r = 200 \<and>
        json_body r = Inr result \<and> first_choice_text result = Inr t \<and>
        getslice_to t 100 = Inl e \<longrightarrow>
        fst ?g = Inr (PStr (''Error: '' @ str_exn rt e))"
    by (simp add: generate_text_def generate_text_try_def Let_def)
  have shown_line: "\<forall>r result t shown e. print_error rt (exception_line rt e) = None \<and>
        print_error rt (sending_line self) = None \<and>
        print_error rt (prompt_line prompt) = None \<and>
        service (w @ [?rq]) = Inr r \<and> status_code r = 200 \<and>
        json_body r = Inr result \<and> first_choice_text result = Inr t \<and>
        getslice_to t 100 = Inr shown \<and> print_error rt (received_line rt shown) = Some e \<longrightarrow>
        fst ?g = Inr (PStr (''Error: '' @ str_exn rt e))"
    by (simp add: generate_text_def generate_text_try_def Let_def)
  have success: "\<forall>r result t shown. print_error rt (sending_line self) = None \<and>
        print_error rt (prompt_line prompt) = None \<and>
        service (w @ [?rq]) = Inr r \<and> status_code r = 200 \<and>
        json_body r = Inr result \<and> first_choice_text result = Inr t \<and>
        getslice_to t 100 = Inr shown \<and> print_error rt (received_line rt shown) = None \<longrightarrow>
        fst ?g = Inr t"
    by (simp add: generate_text_def generate_text_try_def Let_def)
  show ?thesis
    using returns raises generate_text_world [of rt service self prompt mt temp w]
      before transport status body_line decode subscript slice shown_line success
    by (intro conjI) assumption+
qed

theorem generate_text_error_text_witness:
  "fst (generate_text demo_runtime (replying (Inr unavailable)) demo_client
          ''What is Murabaha?'' 1024 0.7 []) = Inr (PStr ''Error: 503'') \<and>
   fst (generate_text demo_runtime (replying (Inl (RequestException ''Connection refused'')))
          demo_client ''What is Murabaha?'' 1024 0.7 []) =
     Inr (PStr ''Error: Connection refused'') \<and>
   fst (generate_text demo_runtime (replying (Inr html_page)) demo_client
          ''What is Murabaha?'' 1024 0.7 []) = Inr (PStr ''Error: Expecting value'') \<and>
   fst (generate_text demo_runtime (replying (Inr no_choices)) demo_client
          ''What is Murabaha?'' 1024 0.7 []) = Inr (PStr ''Error: list index out of range'') \<and>
   fst (generate_text demo_runtime (replying (Inr number_completion)) demo_client
          ''What is Murabaha?'' 1024 0.7 []) =
     Inr (PStr ''Error: object is not subscriptable'') \<and>
   generate_text ascii_runtime (replying (Inr (completion ''Step 1''))) demo_client
       [CHR 0xD8, CHR 0xA3] 1024 0.7 [] =
     (Inr (PStr ''Error: ordinal not in range(128)''), []) \<and>
   fst (generate_text ascii_runtime
          (replying (Inr \<lparr>status_code = 502, response_text = [CHR 0xC3, CHR 0xA9],
                          json_body = Inl (JSONDecodeError ''Expecting value'')\<rparr>))
          demo_client ''What is Murabaha?'' 1024 0.7 []) =
     Inr (PStr ''Error: ordinal not in range(128)'') \<and>
   fst (generate_text ascii_runtime (replying (Inr (completion [CHR 0xC3, CHR 0xA9])))
          demo_client ''What is Murabaha?'' 1024 0.7 []) =
     Inr (PStr ''Error: ordinal not in range(128)'') \<and>
   fst (generate_text demo_runtime (replying (Inr (completion ''Step 1''))) demo_client
          ''What is Murabaha?'' 1024 0.7 []) = Inr (PStr ''Step 1'') \<and>
   snd (generate_text demo_runtime (replying (Inr (completion ''Step 1''))) demo_client
          ''What is Murabaha?'' 1024 0.7 []) =
     [request_of demo_client ''What is Murabaha?'' 1024 0.7] \<and>
   (\<exists>v w'. generate_text demo_runtime (replying (Inr array_completion)) demo_client
              ''What is Murabaha?'' 1024 0.7 [] = (Inr v, w')) \<and>
   (\<exists>e. print_error ascii_runtime (exception_line ascii_runtime e) =
          Some (UnicodeEncodeError
                  (''Exception when calling Together AI API: Connexion refus'' @
                   [CHR 0xC3, CHR 0xA9] @ ''e'')))"
proof -
  let ?p = "''What is Murabaha?''"
  note facts = generate_text_error_text
  note world = facts [THEN conjunct2, THEN conjunct2, THEN conjunct1, rule_format]
  note before = facts [THEN conjunct2, THEN conjunct2, THEN conjunct2, THEN conjunct1, rule_format]
  note transport = facts [THEN conjunct2, THEN conjunct2, THEN conjunct2, THEN conjunct2,
      THEN conjunct1, rule_format]
  note status = facts [THEN conjunct2, THEN conjunct2, THEN conjunct2, THEN conjunct2,
      THEN conjunct2, THEN conjunct1, rule_format]
  note body_line = facts [THEN conjunct2, THEN conjunct2, THEN conjunct2, THEN conjunct2,
      THEN conjunct2, THEN conjunct2, THEN conjunct1, rule_format]
  note decode = facts [THEN conjunct2, THEN conjunct2, THEN conjunct2, THEN conjunct2,
      THEN conjunct2, THEN conjunct2, THEN conjunct2, THEN conjunct1, rule_format]
  note subscript = facts [THEN conjunct2, THEN conjunct2, THEN conjunct2, THEN conjunct2,
      THEN conjunct2, THEN conjunct2, THEN conjunct2, THEN conjunct2, THEN conjunct1, rule_format]
  note slice = facts [THEN conjunct2, THEN conjunct2, THEN conjunct2, THEN conjunct2,
      THEN conjunct2, THEN conjunct2, THEN conjunct2, THEN conjunct2, THEN conjunct2,
      THEN conjunct1, rule_format]
  note shown_line = facts [THEN conjunct2, THEN conjunct2, THEN conjunct2, THEN conjunct2,
      THEN conjunct2, THEN conjunct2, THEN conjunct2, THEN conjunct2, THEN conjunct2,
      THEN conjunct2, THEN conjunct1, rule_format]
  note success = facts [THEN conjunct2, THEN conjunct2, THEN conjunct2, THEN conjunct2,
      THEN conjunct2, THEN conjunct2, THEN conjunct2, THEN conjunct2, THEN conjunct2,
      THEN conjunct2, THEN conjunct2, rule_format]
  have "fst (generate_text demo_runtime (replying (Inr unavailable)) demo_client ?p 1024 0.7 []) =
          Inr (PStr ''Error: 503'')"
    using status [where rt = demo_runtime and service = "replying (Inr unavailable)"
                    and self = demo_client and prompt = ?p and mt = 1024 and temp = "0.7"
                    and w = "[]" and r = unavailable]
    by (simp add: replying_def unavailable_def demo_runtime_def accepting_def str_int_def)
  moreover
  have "fst (generate_text demo_runtime (replying (Inl (RequestException ''Connection refused'')))
               demo_client ?p 1024 0.7 []) = Inr (PStr ''Error: Connection refused'')"
    using transport [where rt = demo_runtime and self = demo_client and prompt = ?p
                       and service = "replying (Inl (RequestException ''Connection refused''))"
                       and mt = 1024 and temp = "0.7" and w = "[]"
                       and e = "RequestException ''Connection refused''"]
    by (simp add: replying_def demo_runtime_def accepting_def)
  moreover
  have "fst (generate_text demo_runtime (replying (Inr html_page)) demo_client ?p 1024 0.7 []) =
          Inr (PStr ''Error: Expecting value'')"
    using decode [where rt = demo_runtime and service = "replying (Inr html_page)"
                    and self = demo_client and prompt = ?p and mt = 1024 and temp = "0.7"
                    and w = "[]" and r = html_page and e = "JSONDecodeError ''Expecting value''"]
    by (simp add: replying_def html_page_def demo_runtime_def accepting_def)
  moreover
  have "fst (generate_text demo_runtime (replying (Inr no_choices)) demo_client ?p 1024 0.7 []) =
          Inr (PStr ''Error: list index out of range'')"
    using subscript [where rt = demo_runtime and service = "replying (Inr no_choices)"
                       and self = demo_client and prompt = ?p and mt = 1024 and temp = "0.7"
                       and w = "[]" and r = no_choices
                       and result = "PDict [(''choices'', PList [])]"
                       and e = "IndexError (PList [])"]
    by (simp add: replying_def no_choices_def demo_runtime_def accepting_def
          first_choice_text_def)
  moreover
  have "fst (generate_text demo_runtime (replying (Inr number_completion)) demo_client
               ?p 1024 0.7 []) = Inr (PStr ''Error: object is not subscriptable'')"
    using slice [where rt = demo_runtime and service = "replying (Inr number_completion)"
                   and self = demo_client and prompt = ?p and mt = 1024 and temp = "0.7"
                   and w = "[]" and r = number_completion
                   and result = "PDict [(''choices'', PList [PDict [(''text'', PInt 5)]])]"
                   and t = "PInt 5" and e = "TypeError (PInt 5) (Getslice 100)"]
    by (simp add: replying_def number_completion_def demo_runtime_def accepting_def
          first_choice_text_def)
  moreover
  have "generate_text ascii_runtime (replying (Inr (completion ''Step 1''))) demo_client
          [CHR 0xD8, CHR 0xA3] 1024 0.7 [] =
        (Inr (PStr ''Error: ordinal not in range(128)''), [])"
    using before [where rt = ascii_runtime and self = demo_client
                    and prompt = "[CHR 0xD8, CHR 0xA3]"
                    and service = "replying (Inr (completion ''Step 1''))"
                    and mt = 1024 and temp = "0.7" and w = "[]"
                    and e = "UnicodeEncodeError (prompt_line [CHR 0xD8, CHR 0xA3])"]
    by (simp add: ascii_runtime_def ascii_only_def sending_line_def prompt_line_def
          exception_line_def demo_client_def str_slice_to_def is_cont_def)
  moreover
  have "fst (generate_text ascii_runtime
          (replying (Inr \<lparr>status_code = 502, response_text = [CHR 0xC3, CHR 0xA9],
                          json_body = Inl (JSONDecodeError ''Expecting value'')\<rparr>))
          demo_client ?p 1024 0.7 []) = Inr (PStr ''Error: ordinal not in range(128)'')"
    using body_line [where rt = ascii_runtime and self = demo_client and prompt = ?p
                       and service = "replying (Inr \<lparr>status_code = 502,
                             response_text = [CHR 0xC3, CHR 0xA9],
                             json_body = Inl (JSONDecodeError ''Expecting value'')\<rparr>)"
                       and mt = 1024 and temp = "0.7" and w = "[]"
                       and r = "\<lparr>status_code = 502, response_text = [CHR 0xC3, CHR 0xA9],
                                 json_body = Inl (JSONDecodeError ''Expecting value'')\<rparr>"
                       and e = "UnicodeEncodeError
                                  (''Error from Together AI API: '' @ [CHR 0xC3, CHR 0xA9])"]
    by (simp add: replying_def ascii_runtime_def ascii_only_def sending_line_def prompt_line_def
          exception_line_def api_error_line_def demo_client_def str_slice_to_def is_cont_def)
  moreover
  have "fst (generate_text ascii_runtime (replying (Inr (completion [CHR 0xC3, CHR 0xA9])))
          demo_client ?p 1024 0.7 []) = Inr (PStr ''Error: ordinal not in range(128)'')"
    using shown_line [where rt = ascii_runtime and self = demo_client and prompt = ?p
                        and service = "replying (Inr (completion [CHR 0xC3, CHR 0xA9]))"
                        and mt = 1024 and temp = "0.7" and w = "[]"
                        and r = "completion [CHR 0xC3, CHR 0xA9]"
                        and result = "PDict [(''choices'',
                                        PList [PDict [(''text'', PStr [CHR 0xC3, CHR 0xA9])]])]"
                        and t = "PStr [CHR 0xC3, CHR 0xA9]"
                        and shown = "PStr [CHR 0xC3, CHR 0xA9]"
                        and e = "UnicodeEncodeError
                                   (received_line ascii_runtime (PStr [CHR 0xC3, CHR 0xA9]))"]
    by (simp add: replying_def completion_def ascii_runtime_def ascii_only_def sending_line_def
          prompt_line_def exception_line_def received_line_def demo_client_def
          str_slice_to_def is_cont_def first_choice_text_def)
  moreover
  have "fst (generate_text demo_runtime (replying (Inr (completion ''Step 1''))) demo_client
          ?p 1024 0.7 []) = Inr (PStr ''Step 1'')"
    using success [where rt = demo_runtime and self = demo_client and prompt = ?p
                     and service = "replying (Inr (completion ''Step 1''))"
                     and mt = 1024 and temp = "0.7" and w = "[]"
                     and r = "completion ''Step 1''"
                     and result = "PDict [(''choices'', PList [PDict [(''text'', PStr ''Step 1'')]])]"
                     and t = "PStr ''Step 1''" and shown = "PStr (str_slice_to ''Step 1'' 100)"]
    by (simp add: replying_def completion_def demo_runtime_def accepting_def
          first_choice_text_def)
  moreover
  have "snd (generate_text demo_runtime (replying (Inr (completion ''Step 1''))) demo_client
          ?p 1024 0.7 []) = [request_of demo_client ?p 1024 0.7]"
    using world [where rt = demo_runtime and self = demo_client and prompt = ?p
                   and service = "replying (Inr (completion ''Step 1''))"
                   and mt = 1024 and temp = "0.7" and w = "[]"]
    by (simp add: demo_runtime_def accepting_def)
  moreover
  have printable: "\<forall>e. print_error demo_runtime (exception_line demo_runtime e) = None"
    by (simp add: demo_runtime_def accepting_def)
  have "\<exists>v w'. generate_text demo_runtime (replying (Inr array_completion)) demo_client
                  ?p 1024 0.7 [] = (Inr v, w')"
    using printable
      facts [where rt = demo_runtime and self = demo_client and prompt = ?p
               and service = "replying (Inr array_completion)"
               and mt = 1024 and temp = "0.7" and w = "[]", THEN conjunct1]
    by blast
  moreover
  have raised: "generate_text ascii_runtime (replying (Inl refused)) demo_client ?p 1024 0.7 [] =
                  (Inl (UnicodeEncodeError
                          (''Exception when calling Together AI API: Connexion refus'' @
                           [CHR 0xC3, CHR 0xA9] @ ''e'')),
                   [request_of demo_client ?p 1024 0.7])"
    by (simp add: generate_text_def generate_text_try_def replying_def ascii_runtime_def
          ascii_only_def sending_line_def prompt_line_def exception_line_def demo_client_def
          str_slice_to_def is_cont_def refused_def)
  have "\<exists>e. print_error ascii_runtime (exception_line ascii_runtime e) =
              Some (UnicodeEncodeError
                      (''Exception when calling Together AI API: Connexion refus'' @
                       [CHR 0xC3, CHR 0xA9] @ ''e''))"
    using raised
      facts [where rt = ascii_runtime and self = demo_client and prompt = ?p
               and service = "replying (Inl refused)"
               and mt = 1024 and temp = "0.7" and w = "[]", THEN conjunct2, THEN conjunct1]
    by blast
  ultimately show ?thesis by blast
qed

text \<open>
  Two ways the claim as it stands fails. The response \<^verbatim>\<open>200 {"choices": [{"text": []}]}\<close>
  does not have the shape the service documents, yet nothing raises on it: an empty array
  can be sliced and printed, and the array itself comes back, not a string starting with
  \<^verbatim>\<open>"Error: "\<close>. And on a standard output that takes ASCII only, a transport failure whose
  message has an accented letter makes the \<^verbatim>\<open>print\<close> of the \<^verbatim>\<open>except\<close> clause raise
  \<^verbatim>\<open>UnicodeEncodeError\<close>, which leaves \<^verbatim>\<open>generate_text\<close>.
\<close>

theorem generate_text_sentinel_counterexample:
  "fst (generate_text demo_runtime (replying (Inr array_completion)) demo_client
          ''What is Murabaha?'' 1024 0.7 []) = Inr (PList []) \<and>
   fst (generate_text ascii_runtime (replying (Inl refused)) demo_client
          ''What is Murabaha?'' 1024 0.7 []) =
     Inl (UnicodeEncodeError
            (''Exception when calling Together AI API: Connexion refus'' @
             [CHR 0xC3, CHR 0xA9] @ ''e''))"
  by (simp add: generate_text_def generate_text_try_def first_choice_text_def replying_def
        array_completion_def demo_runtime_def accepting_def ascii_runtime_def ascii_only_def
        sending_line_def prompt_line_def exception_line_def demo_client_def str_slice_to_def
        is_cont_def refused_def)




section \<open>What the prompts contain\<close>

lemma explanation_prompt_contains_title:
  "sublist title (explanation_prompt lang title scen)"
proof (cases "lang = ''English''")
  case True
  have "explanation_prompt lang title scen =
          explanation_en_1 @ title @ (explanation_en_2 @ scen @ explanation_en_3)"
    using True by (simp add: explanation_prompt_def)
  then show ?thesis by (metis sublist_appendI)
next
  case False
  have "explanation_prompt lang title scen =
          explanation_ar_1 @ title @ (explanation_ar_2 @ scen @ explanation_ar_3)"
    using False by (simp add: explanation_prompt_def)
  then show ?thesis by (metis sublist_appendI)
qed

lemma explanation_prompt_contains_scenario:
  "sublist scen (explanation_prompt lang title scen)"
proof (cases "lang = ''English''")
  case True
  have "explanation_prompt lang title scen =
          (explanation_en_1 @ title @ explanation_en_2) @ scen @ explanation_en_3"
    using True by (simp add: explanation_prompt_def)
  then show ?thesis by (metis sublist_appendI)
next
  case False
  have "explanation_prompt lang title scen =
          (explanation_ar_1 @ title @ explanation_ar_2) @ scen @ explanation_ar_3"
    using False by (simp add: explanation_prompt_def)
  then show ?thesis by (metis sublist_appendI)
qed

lemma feedback_prompt_contains_expert:
  "sublist expert (feedback_prompt lang scen usr expert)"
proof (cases "lang = ''English''")
  case True
  have "feedback_prompt lang scen usr expert =
          (feedback_en_1 @ scen @ feedback_en_2 @ usr @ feedback_en_3) @ expert @ feedback_en_4"
    using True by (simp add: feedback_prompt_def)
  then show ?thesis by (metis sublist_appendI)
next
  case False
  have "feedback_prompt lang scen usr expert =
          (feedback_ar_1 @ scen @ feedback_ar_2 @ usr @ feedback_ar_3) @ expert @ feedback_ar_4"
    using False by (simp add: feedback_prompt_def)
  then show ?thesis by (metis sublist_appendI)
qed

lemma question_prompt_contains_question:
  "sublist q (question_prompt lang q)"
proof (cases "lang = ''English''")
  case True
  have "question_prompt lang q = question_en_1 @ q @ question_en_2"
    using True by (simp add: question_prompt_def)
  then show ?thesis by (metis sublist_appendI)
next
  case False
  have "question_prompt lang q = question_ar_1 @ q @ question_ar_2"
    using False by (simp add: question_prompt_def)
  then show ?thesis by (metis sublist_appendI)
qed

lemma explanation_templates_differ:
  "explanation_en_1 @ a \<noteq> explanation_ar_1 @ b"
  by (simp add: explanation_en_1_def explanation_ar_1_def)

text \<open>
  Claim C6. Whatever the arguments, the language and the client, each composer makes one
  call to the client, with fixed sampling parameters: \<^verbatim>\<open>get_explanation\<close> with
  \<^verbatim>\<open>max_tokens=2048\<close> and \<^verbatim>\<open>temperature=0.5\<close>, \<^verbatim>\<open>get_feedback\<close> with 1024 and 0.5,
  \<^verbatim>\<open>ask_custom_question\<close> with 1536 and 0.7. With the real client the two parameters are the
  \<^verbatim>\<open>max_tokens\<close> and \<^verbatim>\<open>temperature\<close> fields of the JSON payload of the one request it posts
  (none is posted when one of the two lines printed first cannot be written).
\<close>

theorem sampling_parameters:
  "explainer_get_explanation rt ai_client standard title scen lang w =
     ai_client (explanation_prompt lang (fmt rt title) (fmt rt scen)) 2048 0.5 w \<and>
   explainer_get_feedback rt ai_client scen usr expert lang w =
     ai_client (feedback_prompt lang (fmt rt scen) (fmt rt usr) (fmt rt expert)) 1024 0.5 w \<and>
   explainer_ask_custom_question rt ai_client q lang w =
     ai_client (question_prompt lang (fmt rt q)) 1536 0.7 w \<and>
   snd (explainer_get_explanation rt (generate_text rt service self) standard title scen lang
          posted) =
     (if print_error rt (sending_line self) = None \<and>
         print_error rt (prompt_line (explanation_prompt lang (fmt rt title) (fmt rt scen))) = None
      then posted @
           [\<lparr>url = base_url self, headers = client_headers self,
             json = [(''model'', PStr (model self)),
                     (''prompt'', PStr (explanation_prompt lang (fmt rt title) (fmt rt scen))),
                     (''max_tokens'', PInt 2048), (''temperature'', PFloat 0.5)]\<rparr>]
      else posted) \<and>
   snd (explainer_get_feedback rt (generate_text rt service self) scen usr expert lang posted) =
     (if print_error rt (sending_line self) = None \<and>
         print_error rt
           (prompt_line (feedback_prompt lang (fmt rt scen) (fmt rt usr) (fmt rt expert))) = None
      then posted @
           [\<lparr>url = base_url self, headers = client_headers self,
             json = [(''model'', PStr (model self)),
                     (''prompt'',
                      PStr (feedback_prompt lang (fmt rt scen) (fmt rt usr) (fmt rt expert))),
                     (''max_tokens'', PInt 1024), (''temperature'', PFloat 0.5)]\<rparr>]
      else posted) \<and>
   snd (explainer_ask_custom_question rt (generate_text rt service self) q lang posted) =
     (if print_error rt (sending_line self) = None \<and>
         print_error rt (prompt_line (question_prompt lang (fmt rt q))) = None
      then posted @
           [\<lparr>url = base_url self, headers = client_headers self,
             json = [(''model'', PStr (model self)),
                     (''prompt'', PStr (question_prompt lang (fmt rt q))),
                     (''max_tokens'', PInt 1536), (''temperature'', PFloat 0.7)]\<rparr>]
      else posted)"
proof -
  have calls:
    "explainer_get_explanation rt c standard title scen lang x =
       c (explanation_prompt lang (fmt rt title) (fmt rt scen)) 2048 0.5 x"
    "explainer_get_feedback rt c scen usr expert lang x =
       c (feedback_prompt lang (fmt rt scen) (fmt rt usr) (fmt rt expert)) 1024 0.5 x"
    "explainer_ask_custom_question rt c q lang x =
       c (question_prompt lang (fmt rt q)) 1536 0.7 x"
    for c :: "'c ai_client" and x
    by (simp_all add: explainer_get_explanation_def explainer_get_feedback_def
          explainer_ask_custom_question_def)
  show ?thesis
    by (simp add: calls generate_text_world request_of_def)
qed

section \<open>Looking up the standard and the example\<close>

lemma truthy_match:
  "getitem_str s key = Inr v \<Longrightarrow> truthy s"
  by (cases s) (auto split: option.splits)

lemma next_match_first:
  assumes "getitem_str s key = Inr (PStr wanted)"
      and "\<forall>x \<in> set pre. \<exists>v. getitem_str x key = Inr v \<and> v \<noteq> PStr wanted"
  shows "next_match key wanted (pre @ s # post) = Inr s"
  using assms by (induction pre) auto

text \<open>
  Claim C10. Both handlers resolve the standard as the first element of the loaded list
  whose \<^verbatim>\<open>id\<close> equals the requested identifier, and the example as the first element whose
  \<^verbatim>\<open>standard_id\<close> does: when every earlier element carries the field with another value,
  that element is the result, whatever follows it. Later elements, matching or not, are
  never looked at: each handler answers as it would with the two lists cut after the
  first match.
\<close>

theorem first_match_wins:
  assumes "standards st = PList (pre @ s # post)"
      and "\<forall>x \<in> set pre. \<exists>v. getitem_str x ''id'' = Inr v \<and> v \<noteq> PStr sid"
      and "getitem_str s ''id'' = Inr (PStr sid)"
      and "examples st = PList (pre' @ e # post')"
      and "\<forall>x \<in> set pre'. \<exists>v. getitem_str x ''standard_id'' = Inr v \<and> v \<noteq> PStr sid"
      and "getitem_str e ''standard_id'' = Inr (PStr sid)"
  shows "find_by ''id'' sid (standards st) = Inr s \<and>
         find_by ''standard_id'' sid (examples st) = Inr e \<and>
         resolve st sid = Inr (s, e) \<and>
         (standard_id request = sid \<longrightarrow>
            get_explanation rt ai_client st request w =
            get_explanation rt ai_client
              (st\<lparr>standards := PList (pre @ [s]), examples := PList (pre' @ [e])\<rparr>) request w) \<and>
         (fb_standard_id fb_request = sid \<longrightarrow>
            get_feedback rt ai_client st fb_request w =
            get_feedback rt ai_client
              (st\<lparr>standards := PList (pre @ [s]), examples := PList (pre' @ [e])\<rparr>) fb_request w)"
proof -
  let ?st' = "st\<lparr>standards := PList (pre @ [s]), examples := PList (pre' @ [e])\<rparr>"
  have std: "find_by ''id'' sid (standards st) = Inr s"
    using assms(1) next_match_first [OF assms(3,2)] by (simp add: find_by_def)
  have ex: "find_by ''standard_id'' sid (examples st) = Inr e"
    using assms(4) next_match_first [OF assms(6,5)] by (simp add: find_by_def)
  have std': "find_by ''id'' sid (standards ?st') = Inr s"
    using next_match_first [OF assms(3,2), of "[]"] by (simp add: find_by_def)
  have ex': "find_by ''standard_id'' sid (examples ?st') = Inr e"
    using next_match_first [OF assms(6,5), of "[]"] by (simp add: find_by_def)
  have t: "truthy s" "truthy e"
    using assms(3,6) truthy_match by blast+
  have r: "resolve st sid = Inr (s, e)"
    by (simp add: resolve_def std ex t)
  have r': "resolve ?st' sid = Inr (s, e)"
    using std' ex' t by (simp add: resolve_def)
  show ?thesis
    using std ex r r'
    by (auto simp: get_explanation_def get_explanation_try_def get_feedback_def
          get_feedback_try_def)
qed

theorem first_match_wins_witness:
  "resolve demo_store ''FAS4'' =
     Inr (PDict [(''id'', PStr ''FAS4''), (''title_en'', PStr ''Murabaha''),
                 (''title_ar'', PStr ''al-Murabaha'')],
          PDict [(''standard_id'', PStr ''FAS4''),
                 (''scenario_en'', PStr ''Cost 100, sold at cost + 10%''),
                 (''scenario_ar'', PStr ''100 + 10%'')])"
proof -
  let ?other = "PDict [(''id'', PStr ''FAS28''), (''title_en'', PStr ''Deferred Payment Sales''),
                       (''title_ar'', PStr ''al-Bay'')]"
  let ?s = "PDict [(''id'', PStr ''FAS4''), (''title_en'', PStr ''Murabaha''),
                   (''title_ar'', PStr ''al-Murabaha'')]"
  let ?dup = "PDict [(''id'', PStr ''FAS4''), (''title_en'', PStr ''Duplicate''),
                     (''title_ar'', PStr ''Duplicate'')]"
  let ?e = "PDict [(''standard_id'', PStr ''FAS4''),
                   (''scenario_en'', PStr ''Cost 100, sold at cost + 10%''),
                   (''scenario_ar'', PStr ''100 + 10%'')]"
  let ?e2 = "PDict [(''standard_id'', PStr ''FAS4''),
                    (''scenario_en'', PStr ''Rent of 5% per year''),
                    (''scenario_ar'', PStr ''Second'')]"
  have stds: "standards demo_store = PList ([?other] @ ?s # [?dup])"
    by (simp add: demo_store_def)
  have earlier: "\<forall>x \<in> set [?other]. \<exists>v. getitem_str x ''id'' = Inr v \<and> v \<noteq> PStr ''FAS4''"
    by simp
  have s_id: "getitem_str ?s ''id'' = Inr (PStr ''FAS4'')"
    by simp
  have exs: "examples demo_store = PList ([] @ ?e # [?e2])"
    by (simp add: demo_store_def)
  have none_earlier:
    "\<forall>x \<in> set []. \<exists>v. getitem_str x ''standard_id'' = Inr v \<and> v \<noteq> PStr ''FAS4''"
    by simp
  have e_id: "getitem_str ?e ''standard_id'' = Inr (PStr ''FAS4'')"
    by simp
  show ?thesis
    using first_match_wins
            [where rt = demo_runtime and ai_client = "stub_client PNone" and w = "()"
               and request = "\<lparr>standard_id = ''FAS4'', scenario = ''A sale on credit'',
                               language = ''English''\<rparr>"
               and fb_request = "\<lparr>fb_standard_id = ''FAS4'', user_solution = ''Dr Cash 110'',
                                  fb_language = ''English''\<rparr>",
             OF stds earlier s_id exs none_earlier e_id]
    by simp
qed

section \<open>The handlers\<close>

lemma get_explanation_resolved:
  assumes "resolve st (standard_id request) = Inr (standard, example)"
      and "getitem_str standard
             (if language request = ''English'' then ''title_en'' else ''title_ar'') = Inr title"
  shows "get_explanation rt ai_client st request w =
           except_500 rt ''explanation''
             (case ai_client
                     (explanation_prompt (language request) (fmt rt title) (scenario request))
                     2048 0.5 w of
                (Inl e, w') \<Rightarrow> (Inl e, w')
              | (Inr explanation, w') \<Rightarrow> (Inr (PDict [(''explanation'', explanation)]), w'))"
  using assms
  by (simp add: get_explanation_def get_explanation_try_def Let_def explainer_get_explanation_def)

lemma get_feedback_resolved:
  assumes "resolve st (fb_standard_id request) = Inr (standard, example)"
      and "getitem_str standard
             (if fb_language request = ''English'' then ''title_en'' else ''title_ar'') = Inr title"
      and "getitem_str example
             (if fb_language request = ''English'' then ''scenario_en'' else ''scenario_ar'') =
           Inr scen"
      and "ai_client (explanation_prompt (fb_language request) (fmt rt title) (fmt rt scen))
             2048 0.5 w = (Inr expert, w1)"
      and "ai_client
             (feedback_prompt (fb_language request) (fmt rt scen) (user_solution request)
                (fmt rt expert))
             1024 0.5 w1 = (Inr feedback, w2)"
  shows "get_feedback rt ai_client st request w =
           (Inr (PDict [(''feedback'', feedback), (''expert_solution'', expert)]), w2)"
  using assms
  by (simp add: get_feedback_def get_feedback_try_def Let_def explainer_get_explanation_def
        explainer_get_feedback_def except_500_def)

lemma ask_question_result:
  "ask_question rt ai_client st request w =
     except_500 rt ''ask''
       (case ai_client (question_prompt (q_language request) (question request)) 1536 0.7 w of
          (Inl e, w') \<Rightarrow> (Inl e, w')
        | (Inr answer, w') \<Rightarrow> (Inr (PDict [(''answer'', answer)]), w'))"
  by (simp add: ask_question_def ask_question_try_def explainer_ask_custom_question_def)

lemma demo_call:
  "generate_text demo_runtime (replying (Inr (completion t))) demo_client prompt mt temp w =
     (Inr (PStr t), w @ [request_of demo_client prompt mt temp])"
  by (simp add: generate_text_def generate_text_try_def first_choice_text_def replying_def
        completion_def demo_runtime_def accepting_def)

text \<open>
  Claim C1 says that a request whose identifier matches no standard, or a standard but no
  example, is answered with a not-found failure (404) and without a generation call. The
  handlers do raise \<^verbatim>\<open>HTTPException(status_code=404)\<close>, but inside their own \<^verbatim>\<open>try\<close>, whose
  \<^verbatim>\<open>except Exception\<close> catches it, prints a line and raises
  \<^verbatim>\<open>HTTPException(status_code=500)\<close> with the text of the caught exception as detail. On the
  demo store, for the unknown identifier \<^verbatim>\<open>FAS99\<close> and for \<^verbatim>\<open>FAS28\<close>, which has a standard and
  no example, both handlers answer 500 once the line is printed (and leave with the
  exception of the \<^verbatim>\<open>print\<close> when it is not), never 404, for every client and with the world
  unchanged.
\<close>

theorem not_found_becomes_500:
  "get_explanation rt ai_client demo_store
      \<lparr>standard_id = ''FAS99'', scenario = ''A sale'', language = ''English''\<rparr> w =
     (case print_error rt
             (''Error in explanation endpoint: '' @
              str_exn rt (HTTPException 404 ''Standard not found'')) of
        None \<Rightarrow> Inl (HTTPException 500 (str_exn rt (HTTPException 404 ''Standard not found'')))
      | Some e \<Rightarrow> Inl e,
      w) \<and>
   get_explanation rt ai_client demo_store
      \<lparr>standard_id = ''FAS28'', scenario = ''A sale'', language = ''English''\<rparr> w =
     (case print_error rt
             (''Error in explanation endpoint: '' @
              str_exn rt (HTTPException 404 ''Example not found'')) of
        None \<Rightarrow> Inl (HTTPException 500 (str_exn rt (HTTPException 404 ''Example not found'')))
      | Some e \<Rightarrow> Inl e,
      w) \<and>
   get_feedback rt ai_client demo_store
      \<lparr>fb_standard_id = ''FAS99'', user_solution = ''Dr Cash'', fb_language = ''English''\<rparr> w =
     (case print_error rt
             (''Error in feedback endpoint: '' @
              str_exn rt (HTTPException 404 ''Standard not found'')) of
        None \<Rightarrow> Inl (HTTPException 500 (str_exn rt (HTTPException 404 ''Standard not found'')))
      | Some e \<Rightarrow> Inl e,
      w) \<and>
   get_feedback rt ai_client demo_store
      \<lparr>fb_standard_id = ''FAS28'', user_solution = ''Dr Cash'', fb_language = ''English''\<rparr> w =
     (case print_error rt
             (''Error in feedback endpoint: '' @
              str_exn rt (HTTPException 404 ''Example not found'')) of
        None \<Rightarrow> Inl (HTTPException 500 (str_exn rt (HTTPException 404 ''Example not found'')))
      | Some e \<Rightarrow> Inl e,
      w)"
  by (simp add: get_explanation_def get_explanation_try_def get_feedback_def get_feedback_try_def
        except_500_def endpoint_error_line_def resolve_def find_by_def demo_store_def
        split: option.splits)

text \<open>
  Claim C4, as amended. When the standard and the example of a request to the explanation
  handler are found and the standard carries the title for the request's language, the
  handler makes one generation call, whose prompt contains that title and the scenario text
  supplied in the request body, both verbatim; the prompt is the Arabic template, filled
  with the \<^verbatim>\<open>title_ar\<close> field, exactly when the language is not \<^verbatim>\<open>"English"\<close>.
\<close>

theorem explanation_prompt_sent:
  assumes "resolve st (standard_id request) = Inr (standard, example)"
      and "getitem_str standard
             (if language request = ''English'' then ''title_en'' else ''title_ar'') = Inr title"
  shows "get_explanation rt ai_client st request w =
           except_500 rt ''explanation''
             (case ai_client
                     (explanation_prompt (language request) (fmt rt title) (scenario request))
                     2048 0.5 w of
                (Inl e, w') \<Rightarrow> (Inl e, w')
              | (Inr explanation, w') \<Rightarrow> (Inr (PDict [(''explanation'', explanation)]), w')) \<and>
         sublist (fmt rt title)
           (explanation_prompt (language request) (fmt rt title) (scenario request)) \<and>
         sublist (scenario request)
           (explanation_prompt (language request) (fmt rt title) (scenario request)) \<and>
         (language request \<noteq> ''English'' \<longleftrightarrow>
            getitem_str standard ''title_ar'' = Inr title \<and>
            explanation_prompt (language request) (fmt rt title) (scenario request) =
              explanation_ar_1 @ fmt rt title @ explanation_ar_2 @ scenario request @
              explanation_ar_3)"
proof -
  let ?p = "explanation_prompt (language request) (fmt rt title) (scenario request)"
  have "get_explanation rt ai_client st request w =
          except_500 rt ''explanation''
            (case ai_client ?p 2048 0.5 w of
               (Inl e, w') \<Rightarrow> (Inl e, w')
             | (Inr explanation, w') \<Rightarrow> (Inr (PDict [(''explanation'', explanation)]), w'))"
    by (rule get_explanation_resolved [OF assms])
  moreover have "sublist (fmt rt title) ?p"
    by (rule explanation_prompt_contains_title)
  moreover have "sublist (scenario request) ?p"
    by (rule explanation_prompt_contains_scenario)
  moreover have "language request \<noteq> ''English'' \<longleftrightarrow>
            getitem_str standard ''title_ar'' = Inr title \<and>
            ?p = explanation_ar_1 @ fmt rt title @ explanation_ar_2 @ scenario request @
              explanation_ar_3"
    using assms(2) explanation_templates_differ
    by (auto simp: explanation_prompt_def)
  ultimately show ?thesis by blast
qed

theorem explanation_prompt_sent_witness:
  "get_explanation demo_runtime
       (generate_text demo_runtime (replying (Inr (completion ''Step 1''))) demo_client)
       demo_store
       \<lparr>standard_id = ''FAS4'', scenario = ''A sale on credit'', language = ''Arabic''\<rparr> [] =
     (Inr (PDict [(''explanation'', PStr ''Step 1'')]),
      [request_of demo_client
         (explanation_ar_1 @ ''al-Murabaha'' @ explanation_ar_2 @ ''A sale on credit'' @
          explanation_ar_3) 2048 0.5]) \<and>
   sublist ''al-Murabaha''
     (explanation_ar_1 @ ''al-Murabaha'' @ explanation_ar_2 @ ''A sale on credit'' @
      explanation_ar_3) \<and>
   sublist ''A sale on credit''
     (explanation_ar_1 @ ''al-Murabaha'' @ explanation_ar_2 @ ''A sale on credit'' @
      explanation_ar_3) \<and>
   length (explanation_ar_1 @ ''al-Murabaha'' @ explanation_ar_2 @ ''A sale on credit'' @
      explanation_ar_3) = 812"
proof -
  let ?standard = "PDict [(''id'', PStr ''FAS4''), (''title_en'', PStr ''Murabaha''),
                          (''title_ar'', PStr ''al-Murabaha'')]"
  let ?example = "PDict [(''standard_id'', PStr ''FAS4''),
                         (''scenario_en'', PStr ''Cost 100, sold at cost + 10%''),
                         (''scenario_ar'', PStr ''100 + 10%'')]"
  let ?request = "\<lparr>standard_id = ''FAS4'', scenario = ''A sale on credit'', language = ''Arabic''\<rparr>"
  let ?client = "generate_text demo_runtime (replying (Inr (completion ''Step 1''))) demo_client"
  let ?p = "explanation_ar_1 @ ''al-Murabaha'' @ explanation_ar_2 @ ''A sale on credit'' @
            explanation_ar_3"
  have found: "resolve demo_store (standard_id ?request) = Inr (?standard, ?example)"
    by (simp add: resolve_def find_by_def demo_store_def)
  have title: "getitem_str ?standard
                 (if language ?request = ''English'' then ''title_en'' else ''title_ar'') =
               Inr (PStr ''al-Murabaha'')"
    by simp
  note sent = explanation_prompt_sent
                [where rt = demo_runtime and ai_client = ?client and w = "[]", OF found title]
  have prompt: "explanation_prompt ''Arabic'' ''al-Murabaha'' ''A sale on credit'' = ?p"
    using sent [THEN conjunct2, THEN conjunct2, THEN conjunct2] by simp
  have in_title: "sublist ''al-Murabaha''
                    (explanation_prompt ''Arabic'' ''al-Murabaha'' ''A sale on credit'')"
    using sent [THEN conjunct2, THEN conjunct1] by simp
  have in_scenario: "sublist ''A sale on credit''
                       (explanation_prompt ''Arabic'' ''al-Murabaha'' ''A sale on credit'')"
    using sent [THEN conjunct2, THEN conjunct2, THEN conjunct1] by simp
  have handler: "get_explanation demo_runtime ?client demo_store ?request [] =
          except_500 demo_runtime ''explanation''
            (case ?client (explanation_prompt ''Arabic'' ''al-Murabaha'' ''A sale on credit'')
                    2048 0.5 [] of
               (Inl e, w') \<Rightarrow> (Inl e, w')
             | (Inr explanation, w') \<Rightarrow> (Inr (PDict [(''explanation'', explanation)]), w'))"
    using sent [THEN conjunct1] by simp
  have "get_explanation demo_runtime ?client demo_store ?request [] =
          (Inr (PDict [(''explanation'', PStr ''Step 1'')]), [request_of demo_client ?p 2048 0.5])"
    unfolding handler prompt
    using demo_call [of "''Step 1''" ?p 2048 "0.5" "[]"]
    by (simp add: except_500_def)
  moreover have "sublist ''al-Murabaha'' ?p"
    using in_title by (simp only: prompt)
  moreover have "sublist ''A sale on credit'' ?p"
    using in_scenario by (simp only: prompt)
  moreover have "length ?p = 812"
    by (simp add: explanation_ar_1_def explanation_ar_2_def explanation_ar_3_def)
  ultimately show ?thesis by blast
qed

text \<open>
  The scenario stored with the example is not what the explanation handler interpolates:
  for \<^verbatim>\<open>FAS4\<close> the example found holds the English scenario
  \<^verbatim>\<open>"Cost 100, sold at cost + 10%"\<close>, and the prompt posted for a request with the scenario
  \<^verbatim>\<open>"A sale on credit"\<close> does not contain it.
\<close>

theorem explanation_stored_scenario_counterexample:
  "find_by ''standard_id'' ''FAS4'' (examples demo_store) =
     Inr (PDict [(''standard_id'', PStr ''FAS4''),
                 (''scenario_en'', PStr ''Cost 100, sold at cost + 10%''),
                 (''scenario_ar'', PStr ''100 + 10%'')]) \<and>
   get_explanation demo_runtime
       (generate_text demo_runtime (replying (Inr (completion ''Step 1''))) demo_client)
       demo_store
       \<lparr>standard_id = ''FAS4'', scenario = ''A sale on credit'', language = ''English''\<rparr> [] =
     (Inr (PDict [(''explanation'', PStr ''Step 1'')]),
      [request_of demo_client (explanation_prompt ''English'' ''Murabaha'' ''A sale on credit'')
         2048 0.5]) \<and>
   \<not> sublist ''Cost 100, sold at cost + 10%''
       (explanation_prompt ''English'' ''Murabaha'' ''A sale on credit'')"
proof -
  have "find_by ''standard_id'' ''FAS4'' (examples demo_store) =
     Inr (PDict [(''standard_id'', PStr ''FAS4''),
                 (''scenario_en'', PStr ''Cost 100, sold at cost + 10%''),
                 (''scenario_ar'', PStr ''100 + 10%'')])"
    by (simp add: find_by_def demo_store_def)
  moreover
  have "get_explanation demo_runtime
          (generate_text demo_runtime (replying (Inr (completion ''Step 1''))) demo_client)
          demo_store
          \<lparr>standard_id = ''FAS4'', scenario = ''A sale on credit'', language = ''English''\<rparr> [] =
     (Inr (PDict [(''explanation'', PStr ''Step 1'')]),
      [request_of demo_client (explanation_prompt ''English'' ''Murabaha'' ''A sale on credit'')
         2048 0.5])"
    by (simp add: get_explanation_def get_explanation_try_def except_500_def resolve_def
          find_by_def demo_store_def explainer_get_explanation_def demo_call)
  moreover
  have "CHR ''%'' \<notin> set (explanation_prompt ''English'' ''Murabaha'' ''A sale on credit'')"
    by (simp add: explanation_prompt_def explanation_en_1_def explanation_en_2_def
          explanation_en_3_def)
  then have "\<not> sublist ''Cost 100, sold at cost + 10%''
       (explanation_prompt ''English'' ''Murabaha'' ''A sale on credit'')"
    using set_mono_sublist by fastforce
  ultimately show ?thesis by blast
qed

text \<open>
  Claim C9. When the standard and the example of an explanation request are found, the
  prompt handed to the client is composed from the standard's title and the \<^verbatim>\<open>scenario\<close>
  field of the request body, which it contains verbatim. The example found is not used:
  with any other reference data in which the same standard and some example are found,
  whatever scenario that example stores, the handler does the same.
\<close>

theorem explanation_uses_request_scenario:
  assumes "resolve st (standard_id request) = Inr (standard, example)"
      and "getitem_str standard
             (if language request = ''English'' then ''title_en'' else ''title_ar'') = Inr title"
      and "resolve st' (standard_id request) = Inr (standard, example')"
  shows "get_explanation rt ai_client st request w =
           except_500 rt ''explanation''
             (case ai_client
                     (explanation_prompt (language request) (fmt rt title) (scenario request))
                     2048 0.5 w of
                (Inl e, w') \<Rightarrow> (Inl e, w')
              | (Inr explanation, w') \<Rightarrow> (Inr (PDict [(''explanation'', explanation)]), w')) \<and>
         sublist (scenario request)
           (explanation_prompt (language request) (fmt rt title) (scenario request)) \<and>
         (\<exists>before after.
            explanation_prompt (language request) (fmt rt title) (scenario request) =
              before @ scenario request @ after \<and>
            (\<forall>other. explanation_prompt (language request) (fmt rt title) other =
                       before @ other @ after)) \<and>
         get_explanation rt ai_client st' request w = get_explanation rt ai_client st request w"
proof -
  let ?lang = "language request"
  have handler: "get_explanation rt ai_client st request w =
           except_500 rt ''explanation''
             (case ai_client (explanation_prompt ?lang (fmt rt title) (scenario request))
                     2048 0.5 w of
                (Inl e, w') \<Rightarrow> (Inl e, w')
              | (Inr explanation, w') \<Rightarrow> (Inr (PDict [(''explanation'', explanation)]), w'))"
    by (rule get_explanation_resolved [OF assms(1,2)])
  have contains: "sublist (scenario request)
                    (explanation_prompt ?lang (fmt rt title) (scenario request))"
    by (rule explanation_prompt_contains_scenario)
  have slot: "\<exists>before after.
            explanation_prompt ?lang (fmt rt title) (scenario request) =
              before @ scenario request @ after \<and>
            (\<forall>other. explanation_prompt ?lang (fmt rt title) other = before @ other @ after)"
  proof (cases "?lang = ''English''")
    case True
    then have "\<forall>other. explanation_prompt ?lang (fmt rt title) other =
                 (explanation_en_1 @ fmt rt title @ explanation_en_2) @ other @ explanation_en_3"
      by (simp add: explanation_prompt_def)
    then show ?thesis by blast
  next
    case False
    then have "\<forall>other. explanation_prompt ?lang (fmt rt title) other =
                 (explanation_ar_1 @ fmt rt title @ explanation_ar_2) @ other @ explanation_ar_3"
      by (simp add: explanation_prompt_def)
    then show ?thesis by blast
  qed
  have same: "get_explanation rt ai_client st' request w = get_explanation rt ai_client st request w"
    by (simp add: get_explanation_resolved [OF assms(1,2)] get_explanation_resolved [OF assms(3,2)])
  from handler contains slot same show ?thesis by blast
qed

theorem explanation_uses_request_scenario_witness:
  "get_explanation demo_runtime
       (generate_text demo_runtime (replying (Inr (completion ''Step 1''))) demo_client)
       demo_store
       \<lparr>standard_id = ''FAS4'', scenario = ''A sale on credit'', language = ''English''\<rparr> [] =
     (Inr (PDict [(''explanation'', PStr ''Step 1'')]),
      [request_of demo_client (explanation_prompt ''English'' ''Murabaha'' ''A sale on credit'')
         2048 0.5]) \<and>
   sublist ''A sale on credit'' (explanation_prompt ''English'' ''Murabaha'' ''A sale on credit'') \<and>
   \<not> sublist ''Rent of 5% per year''
       (explanation_prompt ''English'' ''Murabaha'' ''A sale on credit'') \<and>
   (\<exists>before after.
      explanation_prompt ''English'' ''Murabaha'' ''A sale on credit'' =
        before @ ''A sale on credit'' @ after \<and>
      explanation_prompt ''English'' ''Murabaha'' ''Rent of 5% per year'' =
        before @ ''Rent of 5% per year'' @ after) \<and>
   get_explanation demo_runtime
       (generate_text demo_runtime (replying (Inr (completion ''Step 1''))) demo_client)
       (demo_store\<lparr>examples :=
          PList [PDict [(''standard_id'', PStr ''FAS4''),
                        (''scenario_en'', PStr ''Rent of 5% per year''),
                        (''scenario_ar'', PStr ''Second'')]]\<rparr>)
       \<lparr>standard_id = ''FAS4'', scenario = ''A sale on credit'', language = ''English''\<rparr> [] =
   get_explanation demo_runtime
       (generate_text demo_runtime (replying (Inr (completion ''Step 1''))) demo_client)
       demo_store
       \<lparr>standard_id = ''FAS4'', scenario = ''A sale on credit'', language = ''English''\<rparr> []"
proof -
  let ?standard = "PDict [(''id'', PStr ''FAS4''), (''title_en'', PStr ''Murabaha''),
                          (''title_ar'', PStr ''al-Murabaha'')]"
  let ?first = "PDict [(''standard_id'', PStr ''FAS4''),
                       (''scenario_en'', PStr ''Cost 100, sold at cost + 10%''),
                       (''scenario_ar'', PStr ''100 + 10%'')]"
  let ?second = "PDict [(''standard_id'', PStr ''FAS4''),
                        (''scenario_en'', PStr ''Rent of 5% per year''),
                        (''scenario_ar'', PStr ''Second'')]"
  let ?request = "\<lparr>standard_id = ''FAS4'', scenario = ''A sale on credit'',
                   language = ''English''\<rparr>"
  let ?client = "generate_text demo_runtime (replying (Inr (completion ''Step 1'')))
                   demo_client"
  let ?p = "explanation_prompt ''English'' ''Murabaha'' ''A sale on credit''"
  have found: "resolve demo_store (standard_id ?request) = Inr (?standard, ?first)"
    by (simp add: resolve_def find_by_def demo_store_def)
  have title: "getitem_str ?standard
                 (if language ?request = ''English'' then ''title_en'' else ''title_ar'') =
               Inr (PStr ''Murabaha'')"
    by simp
  have other: "resolve (demo_store\<lparr>examples := PList [?second]\<rparr>) (standard_id ?request) =
                 Inr (?standard, ?second)"
    by (simp add: resolve_def find_by_def demo_store_def)
  note uses = explanation_uses_request_scenario
                [where rt = demo_runtime and ai_client = ?client and w = "[]",
                 OF found title other]
  have "get_explanation demo_runtime ?client demo_store ?request [] =
          (Inr (PDict [(''explanation'', PStr ''Step 1'')]), [request_of demo_client ?p 2048 0.5])"
    using uses [THEN conjunct1] demo_call [of "''Step 1''" ?p 2048 "0.5" "[]"]
    by (simp add: except_500_def)
  moreover have "sublist ''A sale on credit'' ?p"
    using uses [THEN conjunct2, THEN conjunct1] by simp
  moreover
  have "\<exists>before after.
          ?p = before @ ''A sale on credit'' @ after \<and>
          explanation_prompt ''English'' ''Murabaha'' ''Rent of 5% per year'' =
            before @ ''Rent of 5% per year'' @ after"
  proof -
    obtain before after where
      here: "?p = before @ ''A sale on credit'' @ after" and
      any: "\<forall>other. explanation_prompt ''English'' ''Murabaha'' other = before @ other @ after"
      using uses [THEN conjunct2, THEN conjunct2, THEN conjunct1] by auto
    from any have "explanation_prompt ''English'' ''Murabaha'' ''Rent of 5% per year'' =
                     before @ ''Rent of 5% per year'' @ after"
      by (rule spec)
    with here show ?thesis by blast
  qed
  moreover
  have "CHR ''%'' \<notin> set ?p"
    by (simp add: explanation_prompt_def explanation_en_1_def explanation_en_2_def
          explanation_en_3_def)
  then have "\<not> sublist ''Rent of 5% per year'' ?p"
    using set_mono_sublist by fastforce
  moreover have "get_explanation demo_runtime ?client (demo_store\<lparr>examples := PList [?second]\<rparr>)
                   ?request [] =
                 get_explanation demo_runtime ?client demo_store ?request []"
    using uses [THEN conjunct2, THEN conjunct2, THEN conjunct2] by simp
  ultimately show ?thesis by blast
qed

text \<open>
  Claim C5, as amended. For a feedback request whose standard and example are found and
  carry the title and the scenario for the request's language, the handler makes the
  explanation call and then, with the value it returned, the feedback call, and nothing
  else: when both calls return, the response holds the second value as \<^verbatim>\<open>feedback\<close> and the
  first as \<^verbatim>\<open>expert_solution\<close>, and the first value is interpolated verbatim into the second
  prompt. That includes a first value that is an \<^verbatim>\<open>"Error: ..."\<close> text: the handler does not
  look at it. A call that raises instead of returning ends the handler after that call,
  through its \<^verbatim>\<open>except\<close> clause.
\<close>

theorem feedback_two_calls:
  assumes "resolve st (fb_standard_id request) = Inr (standard, example)"
      and "getitem_str standard
             (if fb_language request = ''English'' then ''title_en'' else ''title_ar'') = Inr title"
      and "getitem_str example
             (if fb_language request = ''English'' then ''scenario_en'' else ''scenario_ar'') =
           Inr scen"
  shows "(\<forall>expert w1 feedback w2.
            ai_client (explanation_prompt (fb_language request) (fmt rt title) (fmt rt scen))
              2048 0.5 w = (Inr expert, w1) \<and>
            ai_client
              (feedback_prompt (fb_language request) (fmt rt scen) (user_solution request)
                 (fmt rt expert))
              1024 0.5 w1 = (Inr feedback, w2) \<longrightarrow>
            get_feedback rt ai_client st request w =
              (Inr (PDict [(''feedback'', feedback), (''expert_solution'', expert)]), w2)) \<and>
         (\<forall>expert.
            sublist (fmt rt expert)
              (feedback_prompt (fb_language request) (fmt rt scen) (user_solution request)
                 (fmt rt expert))) \<and>
         (\<forall>detail.
            sublist (''Error: '' @ detail)
              (feedback_prompt (fb_language request) (fmt rt scen) (user_solution request)
                 (fmt rt (PStr (''Error: '' @ detail))))) \<and>
         (\<forall>e w1.
            ai_client (explanation_prompt (fb_language request) (fmt rt title) (fmt rt scen))
              2048 0.5 w = (Inl e, w1) \<longrightarrow>
            get_feedback rt ai_client st request w =
              (case print_error rt (''Error in feedback endpoint: '' @ str_exn rt e) of
                 None \<Rightarrow> Inl (HTTPException 500 (str_exn rt e))
               | Some e' \<Rightarrow> Inl e',
               w1)) \<and>
         (\<forall>expert w1 e w2.
            ai_client (explanation_prompt (fb_language request) (fmt rt title) (fmt rt scen))
              2048 0.5 w = (Inr expert, w1) \<and>
            ai_client
              (feedback_prompt (fb_language request) (fmt rt scen) (user_solution request)
                 (fmt rt expert))
              1024 0.5 w1 = (Inl e, w2) \<longrightarrow>
            get_feedback rt ai_client st request w =
              (case print_error rt (''Error in feedback endpoint: '' @ str_exn rt e) of
                 None \<Rightarrow> Inl (HTTPException 500 (str_exn rt e))
               | Some e' \<Rightarrow> Inl e',
               w2))"
proof -
  let ?p1 = "explanation_prompt (fb_language request) (fmt rt title) (fmt rt scen)"
  let ?p2 = "\<lambda>expert. feedback_prompt (fb_language request) (fmt rt scen) (user_solution request)
               (fmt rt expert)"
  have both: "\<forall>expert w1 feedback w2.
      ai_client ?p1 2048 0.5 w = (Inr expert, w1) \<and>
      ai_client (?p2 expert) 1024 0.5 w1 = (Inr feedback, w2) \<longrightarrow>
      get_feedback rt ai_client st request w =
        (Inr (PDict [(''feedback'', feedback), (''expert_solution'', expert)]), w2)"
    using get_feedback_resolved [where ai_client = ai_client and rt = rt and w = w, OF assms]
    by blast
  have contains: "\<forall>expert. sublist (fmt rt expert) (?p2 expert)"
    using feedback_prompt_contains_expert by blast
  have sentinel: "\<forall>detail. sublist (''Error: '' @ detail) (?p2 (PStr (''Error: '' @ detail)))"
    using feedback_prompt_contains_expert [where expert = "''Error: '' @ detail" for detail]
    by simp
  have first_raises: "\<forall>e w1. ai_client ?p1 2048 0.5 w = (Inl e, w1) \<longrightarrow>
      get_feedback rt ai_client st request w =
        (case print_error rt (''Error in feedback endpoint: '' @ str_exn rt e) of
           None \<Rightarrow> Inl (HTTPException 500 (str_exn rt e))
         | Some e' \<Rightarrow> Inl e',
         w1)"
    using assms
    by (simp add: get_feedback_def get_feedback_try_def Let_def explainer_get_explanation_def
          except_500_def endpoint_error_line_def split: option.splits)
  have second_raises: "\<forall>expert w1 e w2.
      ai_client ?p1 2048 0.5 w = (Inr expert, w1) \<and>
      ai_client (?p2 expert) 1024 0.5 w1 = (Inl e, w2) \<longrightarrow>
      get_feedback rt ai_client st request w =
        (case print_error rt (''Error in feedback endpoint: '' @ str_exn rt e) of
           None \<Rightarrow> Inl (HTTPException 500 (str_exn rt e))
         | Some e' \<Rightarrow> Inl e',
         w2)"
    using assms
    by (simp add: get_feedback_def get_feedback_try_def Let_def explainer_get_explanation_def
          explainer_get_feedback_def except_500_def endpoint_error_line_def
          split: option.splits)
  from both contains sentinel first_raises second_raises show ?thesis
    by (intro conjI) assumption+
qed

theorem feedback_two_calls_witness:
  "get_feedback demo_runtime (generate_text demo_runtime failing_once demo_client) demo_store
       \<lparr>fb_standard_id = ''FAS4'', user_solution = ''Dr Cash 110'', fb_language = ''English''\<rparr> [] =
     (Inr (PDict [(''feedback'', PStr ''Rated 7 of 10''),
                  (''expert_solution'', PStr ''Error: Read timed out.'')]),
      [request_of demo_client
         (explanation_prompt ''English'' ''Murabaha'' ''Cost 100, sold at cost + 10%'') 2048 0.5,
       request_of demo_client
         (feedback_prompt ''English'' ''Cost 100, sold at cost + 10%'' ''Dr Cash 110''
            ''Error: Read timed out.'') 1024 0.5]) \<and>
   sublist ''Error: Read timed out.''
     (feedback_prompt ''English'' ''Cost 100, sold at cost + 10%'' ''Dr Cash 110''
        ''Error: Read timed out.'') \<and>
   get_feedback demo_runtime (scripted [Inl (RequestException ''down'')]) demo_store
       \<lparr>fb_standard_id = ''FAS4'', user_solution = ''Dr Cash 110'', fb_language = ''English''\<rparr> 0 =
     (Inl (HTTPException 500 ''down''), 1) \<and>
   get_feedback demo_runtime (scripted [Inr (PStr ''Step 1''), Inl (RequestException ''down'')])
       demo_store
       \<lparr>fb_standard_id = ''FAS4'', user_solution = ''Dr Cash 110'', fb_language = ''English''\<rparr> 0 =
     (Inl (HTTPException 500 ''down''), 2)"
proof -
  let ?standard = "PDict [(''id'', PStr ''FAS4''), (''title_en'', PStr ''Murabaha''),
                          (''title_ar'', PStr ''al-Murabaha'')]"
  let ?example = "PDict [(''standard_id'', PStr ''FAS4''),
                         (''scenario_en'', PStr ''Cost 100, sold at cost + 10%''),
                         (''scenario_ar'', PStr ''100 + 10%'')]"
  let ?request = "\<lparr>fb_standard_id = ''FAS4'', user_solution = ''Dr Cash 110'',
                   fb_language = ''English''\<rparr>"
  let ?client = "generate_text demo_runtime failing_once demo_client"
  let ?p1 = "explanation_prompt ''English'' ''Murabaha'' ''Cost 100, sold at cost + 10%''"
  let ?p2 = "feedback_prompt ''English'' ''Cost 100, sold at cost + 10%'' ''Dr Cash 110''
               ''Error: Read timed out.''"
  have found: "resolve demo_store (fb_standard_id ?request) = Inr (?standard, ?example)"
    by (simp add: resolve_def find_by_def demo_store_def)
  have title: "getitem_str ?standard
                 (if fb_language ?request = ''English'' then ''title_en'' else ''title_ar'') =
               Inr (PStr ''Murabaha'')"
    by simp
  have scen: "getitem_str ?example
                (if fb_language ?request = ''English'' then ''scenario_en'' else ''scenario_ar'') =
              Inr (PStr ''Cost 100, sold at cost + 10%'')"
    by simp
  have first: "?client ?p1 2048 0.5 [] =
                 (Inr (PStr ''Error: Read timed out.''), [request_of demo_client ?p1 2048 0.5])"
    by (simp add: generate_text_def generate_text_try_def failing_once_def demo_runtime_def
          accepting_def)
  have second: "?client ?p2 1024 0.5 [request_of demo_client ?p1 2048 0.5] =
                  (Inr (PStr ''Rated 7 of 10''),
                   [request_of demo_client ?p1 2048 0.5, request_of demo_client ?p2 1024 0.5])"
    by (simp add: generate_text_def generate_text_try_def failing_once_def demo_runtime_def
          accepting_def completion_def first_choice_text_def)
  note calls = feedback_two_calls
                 [where rt = demo_runtime and ai_client = ?client and w = "[]",
                  OF found title scen]
  have "get_feedback demo_runtime ?client demo_store ?request [] =
          (Inr (PDict [(''feedback'', PStr ''Rated 7 of 10''),
                       (''expert_solution'', PStr ''Error: Read timed out.'')]),
           [request_of demo_client ?p1 2048 0.5, request_of demo_client ?p2 1024 0.5])"
    using calls [THEN conjunct1, rule_format,
                 where expert = "PStr ''Error: Read timed out.''"
                   and ?w1.0 = "[request_of demo_client ?p1 2048 0.5]"
                   and feedback = "PStr ''Rated 7 of 10''"
                   and ?w2.0 = "[request_of demo_client ?p1 2048 0.5,
                                 request_of demo_client ?p2 1024 0.5]"]
          first second
    by simp
  moreover have "sublist ''Error: Read timed out.'' ?p2"
    using calls [THEN conjunct2, THEN conjunct2, THEN conjunct1, rule_format,
                 where detail = "''Read timed out.''"]
    by simp
  moreover
  have "get_feedback demo_runtime (scripted [Inl (RequestException ''down'')]) demo_store
          ?request 0 = (Inl (HTTPException 500 ''down''), 1)"
    using feedback_two_calls
            [where rt = demo_runtime and ai_client = "scripted [Inl (RequestException ''down'')]"
               and w = 0, OF found title scen,
             THEN conjunct2, THEN conjunct2, THEN conjunct2, THEN conjunct1, rule_format,
             where e = "RequestException ''down''" and ?w1.0 = 1]
    by (simp add: scripted_def demo_runtime_def accepting_def)
  moreover
  have "get_feedback demo_runtime
          (scripted [Inr (PStr ''Step 1''), Inl (RequestException ''down'')]) demo_store
          ?request 0 = (Inl (HTTPException 500 ''down''), 2)"
    using feedback_two_calls
            [where rt = demo_runtime
               and ai_client = "scripted [Inr (PStr ''Step 1''), Inl (RequestException ''down'')]"
               and w = 0, OF found title scen,
             THEN conjunct2, THEN conjunct2, THEN conjunct2, THEN conjunct2, rule_format,
             where expert = "PStr ''Step 1''" and e = "RequestException ''down''"
               and ?w1.0 = 1 and ?w2.0 = 2]
    by (simp add: scripted_def demo_runtime_def accepting_def)
  ultimately show ?thesis by blast
qed

text \<open>
  On a standard output that takes ASCII only, with a first post that fails with a message
  holding an accented letter, the client cannot print the line of its \<^verbatim>\<open>except\<close> clause and
  raises; the feedback handler ends with a 500 after that one call, and one request posted.
\<close>

theorem feedback_abort_counterexample:
  "get_feedback ascii_runtime (generate_text ascii_runtime (replying (Inl refused)) demo_client)
       demo_store
       \<lparr>fb_standard_id = ''FAS4'', user_solution = ''Dr Cash 110'', fb_language = ''English''\<rparr> [] =
     (Inl (HTTPException 500 ''ordinal not in range(128)''),
      [request_of demo_client
         (explanation_prompt ''English'' ''Murabaha'' ''Cost 100, sold at cost + 10%'') 2048 0.5])"
proof -
  let ?p1 = "explanation_prompt ''English'' ''Murabaha'' ''Cost 100, sold at cost + 10%''"
  have line: "ascii_only (prompt_line ?p1) = None"
    by (simp add: ascii_only_def prompt_line_def str_slice_to_def is_cont_def
          explanation_prompt_def explanation_en_1_def explanation_en_2_def explanation_en_3_def)
  have call: "generate_text ascii_runtime (replying (Inl refused)) demo_client ?p1 2048 0.5 [] =
                (Inl (UnicodeEncodeError (exception_line ascii_runtime refused)),
                 [request_of demo_client ?p1 2048 0.5])"
    using line
    by (simp add: generate_text_def generate_text_try_def replying_def ascii_runtime_def
          sending_line_def demo_client_def exception_line_def refused_def ascii_only_def)
  show ?thesis
    using call
    by (simp add: get_feedback_def get_feedback_try_def except_500_def resolve_def find_by_def
          demo_store_def explainer_get_explanation_def endpoint_error_line_def
          ascii_runtime_def ascii_only_def)
qed

text \<open>
  Claim C8. The ask handler hands the question prompt, which contains the question
  verbatim, to the client and returns what the client returned, unchanged, under the key
  \<^verbatim>\<open>answer\<close>; the reference data plays no part, the handler does the same with any other
  store. With a stubbed client returning \<^verbatim>\<open>"Murabaha is..."\<close> the response body is
  \<^verbatim>\<open>{"answer": "Murabaha is..."}\<close>.
\<close>

theorem ask_returns_answer:
  assumes "ai_client (question_prompt (q_language request) (question request)) 1536 0.7 w =
             (Inr answer, w')"
  shows "ask_question rt ai_client st request w = (Inr (PDict [(''answer'', answer)]), w') \<and>
         ask_question rt ai_client st' request w = ask_question rt ai_client st request w \<and>
         sublist (question request) (question_prompt (q_language request) (question request))"
  using assms question_prompt_contains_question
  by (simp add: ask_question_result except_500_def)

theorem ask_returns_answer_witness:
  "ask_question demo_runtime (stub_client (PStr ''Murabaha is...'')) demo_store
       \<lparr>question = ''What is Murabaha?'', q_language = ''English''\<rparr> () =
     (Inr (PDict [(''answer'', PStr ''Murabaha is...'')]), ()) \<and>
   ask_question demo_runtime
       (generate_text demo_runtime (replying (Inr (completion ''Murabaha is...''))) demo_client)
       demo_store \<lparr>question = ''What is Murabaha?'', q_language = ''Arabic''\<rparr> [] =
     (Inr (PDict [(''answer'', PStr ''Murabaha is...'')]),
      [request_of demo_client (question_ar_1 @ ''What is Murabaha?'' @ question_ar_2) 1536 0.7]) \<and>
   ask_question demo_runtime (stub_client (PStr ''Murabaha is...''))
       \<lparr>standards = PList [], examples = PList [], glossary = PList []\<rparr>
       \<lparr>question = ''What is Murabaha?'', q_language = ''English''\<rparr> () =
   ask_question demo_runtime (stub_client (PStr ''Murabaha is...'')) demo_store
       \<lparr>question = ''What is Murabaha?'', q_language = ''English''\<rparr> () \<and>
   sublist ''What is Murabaha?'' (question_prompt ''English'' ''What is Murabaha?'')"
proof -
  let ?request = "\<lparr>question = ''What is Murabaha?'', q_language = ''English''\<rparr>"
  let ?arabic = "\<lparr>question = ''What is Murabaha?'', q_language = ''Arabic''\<rparr>"
  let ?client = "generate_text demo_runtime (replying (Inr (completion ''Murabaha is...'')))
                   demo_client"
  have stub: "stub_client (PStr ''Murabaha is...'')
                (question_prompt (q_language ?request) (question ?request)) 1536 0.7 () =
              (Inr (PStr ''Murabaha is...''), ())"
    by (simp add: stub_client_def)
  have real: "?client (question_prompt (q_language ?arabic) (question ?arabic)) 1536 0.7 [] =
                (Inr (PStr ''Murabaha is...''),
                 [request_of demo_client
                    (question_prompt (q_language ?arabic) (question ?arabic)) 1536 0.7])"
    using demo_call [of "''Murabaha is...''" _ 1536 "0.7" "[]"] by simp
  note stubbed = ask_returns_answer
                   [where ai_client = "stub_client (PStr ''Murabaha is...'')" and rt = demo_runtime
                      and st = demo_store
                      and st' = "\<lparr>standards = PList [], examples = PList [], glossary = PList []\<rparr>",
                    OF stub]
  have "ask_question demo_runtime (stub_client (PStr ''Murabaha is...'')) demo_store ?request () =
          (Inr (PDict [(''answer'', PStr ''Murabaha is...'')]), ())"
    using stubbed [THEN conjunct1] by simp
  moreover
  have "ask_question demo_runtime (stub_client (PStr ''Murabaha is...''))
          \<lparr>standards = PList [], examples = PList [], glossary = PList []\<rparr> ?request () =
        ask_question demo_runtime (stub_client (PStr ''Murabaha is...'')) demo_store ?request ()"
    using stubbed [THEN conjunct2, THEN conjunct1] by simp
  moreover
  have "sublist ''What is Murabaha?'' (question_prompt ''English'' ''What is Murabaha?'')"
    using stubbed [THEN conjunct2, THEN conjunct2] by simp
  moreover
  have "ask_question demo_runtime ?client demo_store ?arabic [] =
          (Inr (PDict [(''answer'', PStr ''Murabaha is...'')]),
           [request_of demo_client (question_ar_1 @ ''What is Murabaha?'' @ question_ar_2)
              1536 0.7])"
    using ask_returns_answer
            [where ai_client = ?client and rt = demo_runtime and st = demo_store
               and st' = demo_store, OF real, THEN conjunct1]
    by (simp add: question_prompt_def)
  ultimately show ?thesis by blast
qed

section \<open>Start-up\<close>

text \<open>
  Claim C7. When none of the three data files exists, loading yields three empty
  collections and leaves \<^verbatim>\<open>[]\<close>, the JSON text of an empty list, in each of the three files.
  Loading again from the file system so left reads each of the three files as an empty
  list: the \<^verbatim>\<open>try\<close> block succeeds, three empty collections result and nothing is written.
  The JSON codec is the library's: what is assumed of it is that an empty list is written
  as \<^verbatim>\<open>[]\<close> and that \<^verbatim>\<open>[]\<close> is read as an empty list.
\<close>

theorem bootstrap_round_trip:
  assumes "files fs ''data/standards.json'' = None"
      and "files fs ''data/examples.json'' = None"
      and "files fs ''data/glossary.json'' = None"
      and "json_dumps rt (PList []) = ''[]''"
      and "json_loads rt ''[]'' = Inr (PList [])"
  shows "\<exists>fs'. load_data rt fs =
                 Inr (\<lparr>standards = PList [], examples = PList [], glossary = PList []\<rparr>, fs') \<and>
               files fs' ''data/standards.json'' = Some ''[]'' \<and>
               files fs' ''data/examples.json'' = Some ''[]'' \<and>
               files fs' ''data/glossary.json'' = Some ''[]'' \<and>
               read_json rt fs' ''data/standards.json'' = Inr (PList []) \<and>
               read_json rt fs' ''data/examples.json'' = Inr (PList []) \<and>
               read_json rt fs' ''data/glossary.json'' = Inr (PList []) \<and>
               load_try rt fs' =
                 Inr \<lparr>standards = PList [], examples = PList [], glossary = PList []\<rparr> \<and>
               load_data rt fs' =
                 Inr (\<lparr>standards = PList [], examples = PList [], glossary = PList []\<rparr>, fs')"
proof -
  let ?fs' = "fs\<lparr>dirs := insert ''data'' (dirs fs),
                 files := (files fs)(''data/standards.json'' \<mapsto> ''[]'',
                                     ''data/examples.json'' \<mapsto> ''[]'',
                                     ''data/glossary.json'' \<mapsto> ''[]'')\<rparr>"
  have missing: "load_try rt fs = Inl (FileNotFoundError ''data/standards.json'')"
    using assms(1) by (simp add: load_try_def read_json_def)
  have written: "bootstrap rt fs =
      Inr (\<lparr>standards = PList [], examples = PList [], glossary = PList []\<rparr>, ?fs')"
    using assms(4)
    by (simp add: bootstrap_def Let_def makedirs_exist_ok_def write_json_def)
  have first: "load_data rt fs =
      Inr (\<lparr>standards = PList [], examples = PList [], glossary = PList []\<rparr>, ?fs')"
    by (simp add: load_data_def missing written)
  have on_disk: "files ?fs' ''data/standards.json'' = Some ''[]''"
                "files ?fs' ''data/examples.json'' = Some ''[]''"
                "files ?fs' ''data/glossary.json'' = Some ''[]''"
    by simp_all
  have read_back: "read_json rt ?fs' ''data/standards.json'' = Inr (PList [])"
                  "read_json rt ?fs' ''data/examples.json'' = Inr (PList [])"
                  "read_json rt ?fs' ''data/glossary.json'' = Inr (PList [])"
    using assms(5) by (simp_all add: read_json_def)
  have again: "load_try rt ?fs' =
      Inr \<lparr>standards = PList [], examples = PList [], glossary = PList []\<rparr>"
    by (simp add: load_try_def read_back)
  have second: "load_data rt ?fs' =
      Inr (\<lparr>standards = PList [], examples = PList [], glossary = PList []\<rparr>, ?fs')"
    by (simp add: load_data_def again)
  from first on_disk read_back again second show ?thesis by blast
qed

theorem bootstrap_round_trip_witness:
  "\<exists>fs'. load_data demo_runtime \<lparr>dirs = {}, files = Map.empty\<rparr> =
            Inr (\<lparr>standards = PList [], examples = PList [], glossary = PList []\<rparr>, fs') \<and>
          files fs' ''data/standards.json'' = Some ''[]'' \<and>
          files fs' ''data/examples.json'' = Some ''[]'' \<and>
          files fs' ''data/glossary.json'' = Some ''[]'' \<and>
          read_json demo_runtime fs' ''data/standards.json'' = Inr (PList []) \<and>
          read_json demo_runtime fs' ''data/examples.json'' = Inr (PList []) \<and>
          read_json demo_runtime fs' ''data/glossary.json'' = Inr (PList []) \<and>
          load_try demo_runtime fs' =
            Inr \<lparr>standards = PList [], examples = PList [], glossary = PList []\<rparr> \<and>
          load_data demo_runtime fs' =
            Inr (\<lparr>standards = PList [], examples = PList [], glossary = PList []\<rparr>, fs')"
proof -
  let ?fs = "\<lparr>dirs = {}, files = Map.empty\<rparr> :: filesystem"
  have none: "files ?fs ''data/standards.json'' = None" "files ?fs ''data/examples.json'' = None"
             "files ?fs ''data/glossary.json'' = None"
    by simp_all
  have dumps: "json_dumps demo_runtime (PList []) = ''[]''"
    by (simp add: demo_runtime_def)
  have loads: "json_loads demo_runtime ''[]'' = Inr (PList [])"
    by (simp add: demo_runtime_def)
  show ?thesis
    using bootstrap_round_trip [OF none dumps loads] by simp
qed

end
